theory Spec2Isabelle
  imports Main "HOL-Library.Multiset" "HOL-Library.List_Lexorder" "HOL-Library.Char_ord"
begin

section \<open>JavaScript strings\<close>

text \<open>
  Strings are lists of 8-bit characters. The character classes below are the ones the
  regular expressions and string methods of the sources use, restricted to code units
  below 256: \<open>\s\<close> and \<open>trim\<close> see the seven white-space characters of that
  range, case conversion is the one of the letters \<open>a-z\<close> / \<open>A-Z\<close>.
\<close>

definition isSpace :: "char \<Rightarrow> bool" where
  "isSpace c = (c \<in> set [CHR 0x09, CHR 0x0A, CHR 0x0B, CHR 0x0C, CHR 0x0D, CHR 0x20, CHR 0xA0])"

definition isLineTerminator :: "char \<Rightarrow> bool" where
  "isLineTerminator c = (c = CHR 0x0A \<or> c = CHR 0x0D)"

definition isUpperAZ :: "char \<Rightarrow> bool" where
  "isUpperAZ c = (let n = (of_char c :: nat) in 65 \<le> n \<and> n \<le> 90)"

definition isLowerAZ :: "char \<Rightarrow> bool" where
  "isLowerAZ c = (let n = (of_char c :: nat) in 97 \<le> n \<and> n \<le> 122)"

definition isDigit :: "char \<Rightarrow> bool" where
  "isDigit c = (let n = (of_char c :: nat) in 48 \<le> n \<and> n \<le> 57)"

text \<open>The class \<open>\w\<close>, which decides where \<open>\b\<close> holds.\<close>

definition isWordChar :: "char \<Rightarrow> bool" where
  "isWordChar c = (isUpperAZ c \<or> isLowerAZ c \<or> isDigit c \<or> c = CHR ''_'')"

text \<open>Upper and lower case differ in bit 5 of the code.\<close>

definition toUpperChar :: "char \<Rightarrow> char" where
  "toUpperChar c = (if isLowerAZ c
     then Char (digit0 c) (digit1 c) (digit2 c) (digit3 c) (digit4 c) False (digit6 c) (digit7 c)
     else c)"

definition toLowerChar :: "char \<Rightarrow> char" where
  "toLowerChar c = (if isUpperAZ c
     then Char (digit0 c) (digit1 c) (digit2 c) (digit3 c) (digit4 c) True (digit6 c) (digit7 c)
     else c)"

definition toUpperCase :: "string \<Rightarrow> string" where
  "toUpperCase s = map toUpperChar s"

definition toLowerCase :: "string \<Rightarrow> string" where
  "toLowerCase s = map toLowerChar s"

definition trimStart :: "string \<Rightarrow> string" where
  "trimStart s = dropWhile isSpace s"

definition trimEnd :: "string \<Rightarrow> string" where
  "trimEnd s = rev (dropWhile isSpace (rev s))"

definition trim :: "string \<Rightarrow> string" where
  "trim s = trimEnd (trimStart s)"

text \<open>\<open>s.startsWith(p)\<close> and \<open>s.includes(p)\<close>.\<close>

fun startsWith :: "string \<Rightarrow> string \<Rightarrow> bool" where
  "startsWith s [] = True"
| "startsWith [] (p # ps) = False"
| "startsWith (c # cs) (p # ps) = (c = p \<and> startsWith cs ps)"

fun includesStr :: "string \<Rightarrow> string \<Rightarrow> bool" where
  "includesStr [] p = (p = [])"
| "includesStr (c # cs) p = (startsWith (c # cs) p \<or> includesStr cs p)"

text \<open>\<open>xs.join(sep)\<close>.\<close>

fun join :: "string \<Rightarrow> string list \<Rightarrow> string" where
  "join sep [] = []"
| "join sep [x] = x"
| "join sep (x # y # ys) = x @ sep @ join sep (y # ys)"

text \<open>
  \<open>Array.from(new Set(xs))\<close>: a set iterates in insertion order, so each value stays at
  the place of its first occurrence.
\<close>

fun uniqInto :: "'a list \<Rightarrow> 'a list \<Rightarrow> 'a list" where
  "uniqInto seen [] = seen"
| "uniqInto seen (x # xs) = uniqInto (if x \<in> set seen then seen else seen @ [x]) xs"

definition arrayFromSet :: "'a list \<Rightarrow> 'a list" where
  "arrayFromSet xs = uniqInto [] xs"


section \<open>The read API (apps/api/src/r2.ts, apps/api/src/index.ts)\<close>

text \<open>
  An R2 bucket maps a key to the stored text of an object. A value read in JavaScript is
  \<open>null\<close>, \<open>undefined\<close> or a proper value.
\<close>

type_synonym bucket = "string \<Rightarrow> string option"

datatype 'a js = Null | Undefined | Val 'a

text \<open>
  \<open>getJson\<close>: the body of the function is one \<open>if (!obj) { return null; try { ... } }\<close>.
  The \<open>try\<close> block that parses the object stands behind the \<open>return\<close> inside the
  \<open>if\<close> block, so it is never run; when the object exists the \<open>if\<close> is skipped and the
  function ends without a \<open>return\<close>, which yields \<open>undefined\<close>.
\<close>

definition getJson :: "bucket \<Rightarrow> string \<Rightarrow> 'a js" where
  "getJson bucket key = (case bucket key of None \<Rightarrow> Null | Some obj \<Rightarrow> Undefined)"

text \<open>\<open>!v\<close> for the result of \<open>getJson\<close>, a parsed record or array being truthy.\<close>

fun falsy :: "'a js \<Rightarrow> bool" where
  "falsy Null = True"
| "falsy Undefined = True"
| "falsy (Val v) = False"

text \<open>
  \<open>joinKey\<close>: the prefix loses its trailing slashes, the path its leading slashes.
\<close>

definition joinKey :: "string option \<Rightarrow> string \<Rightarrow> string" where
  "joinKey prefix path =
     (let cleanPrefix = rev (dropWhile (\<lambda>c. c = CHR ''/'') (rev (case prefix of None \<Rightarrow> [] | Some p \<Rightarrow> p)));
          cleanPath = dropWhile (\<lambda>c. c = CHR ''/'') path
      in if cleanPrefix \<noteq> [] then cleanPrefix @ ''/'' @ cleanPath else cleanPath)"

text \<open>A response is its status and its JSON body (the CORS headers are left out).\<close>

datatype 'a body = ErrorBody string | JsonBody 'a | NoBody

record 'a response =
  status :: nat
  body :: "'a body"

definition jsonResponse :: "'a body \<Rightarrow> nat \<Rightarrow> 'a response" where
  "jsonResponse b st = \<lparr>status = st, body = b\<rparr>"

record env =
  DATA :: bucket
  DATA_PREFIX :: "string option"

definition handleIndex :: "env \<Rightarrow> 'a response" where
  "handleIndex e =
     (let key = joinKey (DATA_PREFIX e) ''controls-index.json'';
          index = getJson (DATA e) key
      in if falsy index then jsonResponse (ErrorBody ''controls-index.json not found'') 404
         else (case index of Val v \<Rightarrow> jsonResponse (JsonBody v) 200
               | _ \<Rightarrow> jsonResponse (ErrorBody ''controls-index.json not found'') 404))"

definition handleControl :: "env \<Rightarrow> string \<Rightarrow> 'a response" where
  "handleControl e controlId =
     (let key = joinKey (DATA_PREFIX e) (''controls/'' @ controlId @ ''.json'');
          control = getJson (DATA e) key
      in if falsy control then jsonResponse (ErrorBody ''control not found'') 404
         else (case control of Val v \<Rightarrow> jsonResponse (JsonBody v) 200
               | _ \<Rightarrow> jsonResponse (ErrorBody ''control not found'') 404))"

text \<open>
  The router, for a \<open>GET\<close> request: \<open>/api/controls/index\<close> goes to \<open>handleIndex\<close>, any
  other path under \<open>/api/controls/\<close> to \<open>handleControl\<close> with the rest of the path
  (trimmed) as the control id.
\<close>

definition fetchGet :: "env \<Rightarrow> string \<Rightarrow> 'a response" where
  "fetchGet e path =
     (if path = ''/api/controls/index'' then handleIndex e
      else if startsWith path ''/api/controls/'' then
        (let controlId = trim (drop (length ''/api/controls/'') path)
         in if controlId = [] then jsonResponse (ErrorBody ''control id is required'') 400
            else handleControl e controlId)
      else jsonResponse (ErrorBody ''not found'') 404)"


section \<open>Control selection for the chat endpoint (apps/api/src/rag.ts)\<close>

text \<open>
  A control as the segmenter finds it, an index entry and a control record all start
  with \<open>control_id\<close> and \<open>control_name\<close>; an index entry and a control record add
  \<open>family_id\<close>, and the index entry the optional \<open>aliases\<close> and \<open>keywords\<close>.
\<close>

record ControlNamed =
  control_id :: string
  control_name :: string

record ControlHead = ControlNamed +
  family_id :: string

record ControlIndexItem = ControlHead +
  aliases :: "string list option"
  keywords' :: "string list option"

text \<open>
  \<open>tokenize\<close>: the lower-cased text is split at every run of characters outside
  \<open>[a-z0-9]\<close>, and the empty pieces are dropped.
\<close>

definition isTokenChar :: "char \<Rightarrow> bool" where
  "isTokenChar c = (isLowerAZ c \<or> isDigit c)"

fun tokensFrom :: "string \<Rightarrow> string \<Rightarrow> string list" where
  "tokensFrom cur [] = (if cur = [] then [] else [cur])"
| "tokensFrom cur (c # cs) =
     (if isTokenChar c then tokensFrom (cur @ [c]) cs
      else (if cur = [] then [] else [cur]) @ tokensFrom [] cs)"

definition tokenize :: "string \<Rightarrow> string list" where
  "tokenize text = tokensFrom [] (toLowerCase text)"

definition normalizeControlId :: "string \<Rightarrow> string" where
  "normalizeControlId i = toUpperCase (trim i)"

text \<open>
  One attempt of a control-id pattern at the head of \<open>s\<close>, the leading \<open>\b\<close> apart:
  two letters \<open>[A-Z]\<close>, a hyphen, one to three digits and a closing \<open>\b\<close>. With
  \<open>ws\<close> the hyphen may stand between white space (\<open>\s*-\s*\<close>, the pattern of the PDF
  extractor); without it the pattern is \<open>[A-Z]{2}-\d{1,3}\<close>. The closing \<open>\b\<close> holds
  where no word character follows, so the digits matched are the whole run of digits, and
  a run of more than three digits or one followed by a letter or an underscore matches
  nothing. The result is the two groups and the text behind the match.
\<close>

definition controlIdAt :: "bool \<Rightarrow> string \<Rightarrow> ((string \<times> string) \<times> string) option" where
  "controlIdAt ws s =
     (case s of
        a # b # t \<Rightarrow>
          if isUpperAZ a \<and> isUpperAZ b then
            (case (if ws then dropWhile isSpace t else t) of
               d # t2 \<Rightarrow>
                 if d = CHR ''-'' then
                   (let t3 = (if ws then dropWhile isSpace t2 else t2);
                        ds = takeWhile isDigit t3;
                        rest = dropWhile isDigit t3
                    in if 1 \<le> length ds \<and> length ds \<le> 3
                          \<and> (case rest of [] \<Rightarrow> True | r # _ \<Rightarrow> \<not> isWordChar r)
                       then Some (([a, b], ds), rest) else None)
                 else None
             | [] \<Rightarrow> None)
          else None
      | _ \<Rightarrow> None)"

lemma controlIdAt_shorter:
  assumes "controlIdAt ws s = Some (m, rest)"
  shows "length rest < length s"
proof (cases s)
  case Nil
  with assms show ?thesis by (simp add: controlIdAt_def)
next
  case (Cons a s1)
  show ?thesis
  proof (cases s1)
    case Nil
    with Cons assms show ?thesis by (simp add: controlIdAt_def)
  next
    case (Cons b t)
    note s = \<open>s = a # s1\<close> \<open>s1 = b # t\<close>
    define t1 where "t1 = (if ws then dropWhile isSpace t else t)"
    have t1_le: "length t1 \<le> length t"
      by (simp add: t1_def length_dropWhile_le)
    show ?thesis
    proof (cases t1)
      case Nil
      with assms s show ?thesis
        by (simp add: controlIdAt_def t1_def [symmetric] split: if_splits)
    next
      case (Cons d t2)
      define t3 where "t3 = (if ws then dropWhile isSpace t2 else t2)"
      have t3_le: "length t3 \<le> length t2"
        by (simp add: t3_def length_dropWhile_le)
      from assms s Cons have "rest = dropWhile isDigit t3"
        by (simp add: controlIdAt_def t1_def [symmetric] t3_def [symmetric] Let_def
            split: if_splits)
      then have "length rest \<le> length t3"
        by (simp add: length_dropWhile_le)
      with t3_le t1_le Cons s show ?thesis
        by simp
    qed
  qed
qed

text \<open>
  All matches of the pattern with the \<open>g\<close> flag, from left to right: an attempt is made
  at a position where \<open>\b\<close> holds (\<open>prevWord\<close> tells whether the character before is a
  word character); after a match the search goes on behind it, after a failure at the
  next character.
\<close>

function scanControlIds :: "bool \<Rightarrow> bool \<Rightarrow> string \<Rightarrow> (string \<times> string) list" where
  "scanControlIds ws prevWord [] = []"
| "scanControlIds ws prevWord (c # cs) =
     (case (if prevWord then None else controlIdAt ws (c # cs)) of
        Some (m, rest) \<Rightarrow> m # scanControlIds ws True rest
      | None \<Rightarrow> scanControlIds ws (isWordChar c) cs)"
  by pat_completeness auto
termination
  by (relation "measure (\<lambda>(ws, p, s). length s)")
     (auto split: if_splits dest: controlIdAt_shorter)

text \<open>\<open>extractControlIds\<close>: the ids in the upper-cased text, each once.\<close>

definition extractControlIds :: "string \<Rightarrow> string list" where
  "extractControlIds text =
     arrayFromSet (map (\<lambda>(l, d). l @ ''-'' @ d) (scanControlIds False False (toUpperCase text)))"

text \<open>
  \<open>scoreControl\<close>: three points for a term that occurs in the lower-cased question, one
  point for each token of a term that is a token of the question.
\<close>

definition scoreControl :: "string \<Rightarrow> string list \<Rightarrow> ControlIndexItem \<Rightarrow> nat" where
  "scoreControl question tokens item =
     (let haystack = toLowerCase question;
          terms = filter (\<lambda>t. t \<noteq> [])
            ([control_id item, control_name item]
              @ (case aliases item of None \<Rightarrow> [] | Some xs \<Rightarrow> xs)
              @ (case keywords' item of None \<Rightarrow> [] | Some xs \<Rightarrow> xs))
      in sum_list (map (\<lambda>trm.
            let termLower = toLowerCase trm
            in (if termLower \<noteq> [] \<and> includesStr haystack termLower then 3 else 0)
               + length (filter (\<lambda>token. token \<in> set tokens) (tokenize termLower))) terms))"

text \<open>
  The map from upper-cased ids to the ids of the index: a later entry replaces an
  earlier one with the same key.
\<close>

definition canonical :: "ControlIndexItem list \<Rightarrow> string \<Rightarrow> string option" where
  "canonical index = map_of (rev (map (\<lambda>item. (toUpperCase (control_id item), control_id item)) index))"

definition add :: "ControlIndexItem list \<Rightarrow> string list \<Rightarrow> string \<Rightarrow> string list" where
  "add index chosen i =
     (case canonical index (normalizeControlId i) of
        Some canonicalId \<Rightarrow>
          if canonicalId \<noteq> [] \<and> canonicalId \<notin> set chosen then chosen @ [canonicalId] else chosen
      | None \<Rightarrow> chosen)"

text \<open>\<open>xs.slice(0, limit)\<close>: a negative limit counts from the end.\<close>

definition sliceTo :: "'a list \<Rightarrow> int \<Rightarrow> 'a list" where
  "sliceTo xs limit = take (if limit < 0 then nat (int (length xs) + limit) else nat limit) xs"

text \<open>
  Step 3 of \<open>selectControlIds\<close>: the entries with a positive score, by falling score
  (the sort is stable), cut at the limit.
\<close>

definition lexicalFallback :: "string \<Rightarrow> ControlIndexItem list \<Rightarrow> int \<Rightarrow> string list" where
  "lexicalFallback question index limit =
     (let tokens = tokenize question;
          scored = sort_key (\<lambda>entry. - int (snd entry))
            (filter (\<lambda>entry. snd entry > 0)
              (map (\<lambda>item. (item, scoreControl question tokens item)) index))
      in map (\<lambda>entry. control_id (fst entry)) (sliceTo scored limit))"

definition selectControlIds ::
  "string \<Rightarrow> string list option \<Rightarrow> ControlIndexItem list \<Rightarrow> int \<Rightarrow> string list" where
  "selectControlIds question controlIds index limit =
     (let chosen1 = (case controlIds of
                       Some ids \<Rightarrow> if ids \<noteq> [] then foldl (add index) [] ids else []
                     | None \<Rightarrow> [])
      in if chosen1 \<noteq> [] then chosen1
         else
           (let chosen2 = foldl (add index) chosen1 (extractControlIds question)
            in if chosen2 \<noteq> [] then chosen2
               else chosen2 @ lexicalFallback question index limit))"


section \<open>The chat endpoint (apps/api/src/index.ts)\<close>

text \<open>
  The body of a request, once parsed: an object from property names to values
  (\<open>JOther\<close> stands for a number or a boolean; other objects are not modelled). The request type declares the
  properties \<open>question\<close> (a string) and \<open>control_ids\<close> (an array of strings). Calling
  \<open>trim\<close> on a question that is neither a string nor absent throws.
\<close>

datatype jsonValue = JNull | JString string | JStringArray "string list" | JOther

type_synonym jsonObject = "string \<Rightarrow> jsonValue option"

datatype exn = TypeError

datatype chatBody =
    ChatError string
  | ChatAnswer string "string list" "string list"

text \<open>
  A property read as the optional id list of \<open>selectControlIds\<close>: a string is iterated
  character by character, any other value has no length.
\<close>

fun asControlIds :: "jsonValue option \<Rightarrow> string list option" where
  "asControlIds (Some (JStringArray ids)) = Some ids"
| "asControlIds (Some (JString s)) = Some (map (\<lambda>c. [c]) s)"
| "asControlIds _ = None"

text \<open>
  The selection of \<open>handleChat\<close>:
  \<open>selectControlIds(payload.question, payload.controlIds, index)\<close>, with the default
  limit. The property read is \<open>controlIds\<close>.
\<close>

definition chatControlIds :: "jsonObject \<Rightarrow> string \<Rightarrow> ControlIndexItem list \<Rightarrow> string list" where
  "chatControlIds payload question index =
     selectControlIds question (asControlIds (payload ''controlIds'')) index 6"

text \<open>
  \<open>handleChat\<close>. The payload is \<open>None\<close> when the body is not JSON. The assembly of the
  prompt, the call of the model and the reading of its answer are one function \<open>ai\<close> of
  the question and the retrieved records (\<open>None\<close> when the binding or the model name is
  missing); a citation is the id of its record.
\<close>

definition handleChat ::
  "(string \<Rightarrow> 'a ControlHead_scheme list \<Rightarrow> string) option \<Rightarrow> env \<Rightarrow> jsonObject option
     \<Rightarrow> exn + chatBody response" where
  "handleChat ai e payload =
     (case payload of
        None \<Rightarrow> Inr (jsonResponse (JsonBody (ChatError ''question is required'')) 400)
      | Some p \<Rightarrow>
          (case p ''question'' of
             None \<Rightarrow> Inr (jsonResponse (JsonBody (ChatError ''question is required'')) 400)
           | Some JNull \<Rightarrow> Inr (jsonResponse (JsonBody (ChatError ''question is required'')) 400)
           | Some (JStringArray xs) \<Rightarrow> Inl TypeError
           | Some JOther \<Rightarrow> Inl TypeError
           | Some (JString question) \<Rightarrow>
               if trim question = [] then
                 Inr (jsonResponse (JsonBody (ChatError ''question is required'')) 400)
               else
                 (let indexKey = joinKey (DATA_PREFIX e) ''controls-index.json'';
                      index = getJson (DATA e) indexKey
                  in case index of
                       Null \<Rightarrow> Inr (jsonResponse (JsonBody (ChatError ''controls-index not found'')) 500)
                     | Undefined \<Rightarrow> Inr (jsonResponse (JsonBody (ChatError ''controls-index not found'')) 500)
                     | Val idx \<Rightarrow>
                         (let controlIds = chatControlIds p question idx;
                              controls = concat (map (\<lambda>controlId.
                                  case getJson (DATA e)
                                         (joinKey (DATA_PREFIX e) (''controls/'' @ controlId @ ''.json'')) of
                                    Val control \<Rightarrow> [control]
                                  | _ \<Rightarrow> []) controlIds)
                          in if controls = [] then
                               Inr (jsonResponse (JsonBody (ChatAnswer
                                 ''Insufficient information in the retrieved controls to answer this question.''
                                 [] [])) 200)
                             else
                               (case ai of
                                  None \<Rightarrow> Inr (jsonResponse
                                    (JsonBody (ChatError ''AI binding or model is not configured'')) 500)
                                | Some run \<Rightarrow> Inr (jsonResponse (JsonBody (ChatAnswer
                                    (run question controls)
                                    (map control_id controls)
                                    (map control_id controls))) 200))))))"


section \<open>Sample data\<close>

definition demoIndex :: "ControlIndexItem list" where
  "demoIndex =
     [\<lparr>control_id = ''AC-2'', control_name = ''ACCOUNT MANAGEMENT'', family_id = ''AC'',
        aliases = Some [], keywords' = Some [''ACCOUNT MANAGEMENT'', ''AC-2(1)'']\<rparr>,
      \<lparr>control_id = ''IA-2'', control_name = ''IDENTIFICATION AND AUTHENTICATION'', family_id = ''IA'',
        aliases = Some [], keywords' = Some [''IDENTIFICATION AND AUTHENTICATION'']\<rparr>]"

text \<open>
  The body \<open>{"question": "What does IA-2 require?", "control_ids": ["AC-2"]}\<close>.
\<close>

definition demoPayload :: jsonObject where
  "demoPayload = [''question'' \<mapsto> JString ''What does IA-2 require?'',
                  ''control_ids'' \<mapsto> JStringArray [''AC-2'']]"


section \<open>The assignment placeholder scan (scripts/export-assignments-csv.mjs)\<close>

text \<open>
  \<open>normalizeSpaces\<close>: every run of white space becomes one space (\<open>prev\<close> tells whether
  the character before was white space), then the text is trimmed.
\<close>

fun collapseSpaces :: "bool \<Rightarrow> string \<Rightarrow> string" where
  "collapseSpaces prev [] = []"
| "collapseSpaces prev (c # cs) =
     (if isSpace c then (if prev then collapseSpaces True cs else CHR '' '' # collapseSpaces True cs)
      else c # collapseSpaces False cs)"

definition normalizeSpaces :: "string \<Rightarrow> string" where
  "normalizeSpaces text = trim (collapseSpaces False text)"

definition normalizeAssignment :: "string \<Rightarrow> string" where
  "normalizeAssignment text = normalizeSpaces text"

text \<open>\<open>s\<close> begins with \<open>p\<close>, letters compared without case (\<open>p\<close> is in lower case).\<close>

definition startsWithCI :: "string \<Rightarrow> string \<Rightarrow> bool" where
  "startsWithCI s p = startsWith (toLowerCase (take (length p) s)) p"

text \<open>
  \<open>parseAssignmentTopic\<close>: each \<open>replace\<close> removes its anchored pattern where it
  matches.
\<close>

definition stripPrefixCI :: "string \<Rightarrow> string \<Rightarrow> string" where
  "stripPrefixCI p s = (if startsWithCI s p then dropWhile isSpace (drop (length p) s) else s)"

definition parseAssignmentTopic :: "string \<Rightarrow> string" where
  "parseAssignmentTopic assignment =
     (let inner0 = (case assignment of c # cs \<Rightarrow> if c = CHR ''['' then cs else assignment | [] \<Rightarrow> []);
          inner = (if inner0 \<noteq> [] \<and> last inner0 = CHR '']'' then butlast inner0 else inner0);
          withoutPrefix = trim (stripPrefixCI ''assignment:'' inner)
      in trim (stripPrefixCI ''organization-defined'' withoutPrefix))"

definition categorizeTopic :: "string \<Rightarrow> string" where
  "categorizeTopic topic =
     (let t = toLowerCase topic in
      if includesStr t ''frequency'' then ''cadence''
      else if includesStr t ''time period'' \<or> includesStr t ''timeframe'' \<or> includesStr t ''period of time''
        then ''time_window''
      else if includesStr t ''personnel'' \<or> includesStr t ''roles'' \<or> includesStr t ''individuals''
        then ''roles_responsibilities''
      else if includesStr t ''number'' \<or> includesStr t ''threshold'' \<or> includesStr t ''limit''
        then ''threshold''
      else if includesStr t ''condition'' \<or> includesStr t ''criteria'' \<or> includesStr t ''circumstances''
        then ''conditions''
      else if includesStr t ''action'' \<or> includesStr t ''procedure'' \<or> includesStr t ''step''
        then ''actions''
      else if includesStr t ''security safeguard'' \<or> includesStr t ''security control''
              \<or> includesStr t ''security function'' \<or> includesStr t ''security attribute''
        then ''security_specification''
      else if includesStr t ''component'' \<or> includesStr t ''system'' \<or> includesStr t ''device''
              \<or> includesStr t ''media'' \<or> includesStr t ''account'' \<or> includesStr t ''application''
              \<or> includesStr t ''service''
        then ''scope_inventory''
      else if includesStr t ''external organization'' \<or> includesStr t ''provider''
        then ''external_parties''
      else if includesStr t ''test'' \<or> includesStr t ''assessment'' then ''validation''
      else ''general'')"

text \<open>
  One attempt of \<open>assignmentPattern\<close>, \<open>\[Assignment:[^\]]+\]\<close> without case, at the head
  of \<open>s\<close>: the label, then the longest run of characters other than \<open>]\<close>, which must not
  be empty, then \<open>]\<close>. The result is the matched text and the text behind it.
\<close>

definition assignmentAt :: "string \<Rightarrow> (string \<times> string) option" where
  "assignmentAt s =
     (if startsWithCI s ''[assignment:'' then
        (let after = drop (length ''[assignment:'') s;
             inner = takeWhile (\<lambda>c. c \<noteq> CHR '']'') after;
             rest = dropWhile (\<lambda>c. c \<noteq> CHR '']'') after
         in if inner \<noteq> [] \<and> rest \<noteq> []
            then Some (take (length ''[assignment:'') s @ inner @ '']'', tl rest)
            else None)
      else None)"

lemma assignmentAt_shorter:
  assumes "assignmentAt s = Some (m, rest)"
  shows "length rest < length s"
proof -
  define after where "after = drop (length ''[assignment:'') s"
  from assms have r: "rest = tl (dropWhile (\<lambda>c. c \<noteq> CHR '']'') after)"
    and ne: "dropWhile (\<lambda>c. c \<noteq> CHR '']'') after \<noteq> []"
    unfolding assignmentAt_def after_def [symmetric]
    by (auto simp: Let_def split: if_splits)
  from ne have "length rest < length (dropWhile (\<lambda>c. c \<noteq> CHR '']'') after)"
    unfolding r by (cases "dropWhile (\<lambda>c. c \<noteq> CHR '']'') after") simp_all
  also have "\<dots> \<le> length after"
    by (rule length_dropWhile_le)
  also have "\<dots> \<le> length s"
    by (simp add: after_def)
  finally show ?thesis .
qed

text \<open>\<open>text.match(assignmentPattern)\<close>: all matches, from left to right.\<close>

function scanAssignments :: "string \<Rightarrow> string list" where
  "scanAssignments [] = []"
| "scanAssignments (c # cs) =
     (case assignmentAt (c # cs) of
        Some (m, rest) \<Rightarrow> m # scanAssignments rest
      | None \<Rightarrow> scanAssignments cs)"
  by pat_completeness auto
termination
  by (relation "measure length") (auto dest: assignmentAt_shorter)

text \<open>
  The value a scope is: a string, an array, an object (its entries in order) or anything
  else. \<open>walk\<close> visits every string in it.
\<close>

datatype jsonDoc = DString string | DArray "jsonDoc list" | DObject "(string \<times> jsonDoc) list" | DOther

fun walk :: "jsonDoc \<Rightarrow> string list" where
  "walk (DString s) = [s]"
| "walk (DArray items) = concat (map walk items)"
| "walk (DObject entries) = concat (map (\<lambda>entry. walk (snd entry)) entries)"
| "walk DOther = []"

text \<open>
  \<open>collectAssignmentsInScope\<close>: the normalised placeholders of all strings of the scope,
  each once, in the order they are first seen, with the number of their occurrences
  (the locations and the snippet kept beside the count are left out).
\<close>

definition collectAssignmentsInScope :: "jsonDoc \<Rightarrow> (string \<times> nat) list" where
  "collectAssignmentsInScope scopeData =
     (let found = concat (map (\<lambda>text. map normalizeAssignment (scanAssignments text)) (walk scopeData))
      in map (\<lambda>assignment. (assignment, count_list found assignment)) (arrayFromSet found))"

text \<open>
  A row of the report, as \<open>buildRowsForControl\<close> derives it from an entry of that map:
  placeholder, topic, category and count.
\<close>

record reportRow =
  assignment_placeholder :: string
  assignment_topic :: string
  category :: string
  occurrence_count :: nat

definition scopeRows :: "jsonDoc \<Rightarrow> reportRow list" where
  "scopeRows scopeData =
     map (\<lambda>(assignment, n).
            (let topic = parseAssignmentTopic assignment
             in \<lparr>assignment_placeholder = assignment, assignment_topic = topic,
                  category = categorizeTopic topic, occurrence_count = n\<rparr>))
         (collectAssignmentsInScope scopeData)"


text \<open>
  The placeholder of the scenario, and the condition under which the pattern reaches it:
  in the text before it, every label \<open>[Assignment:\<close> has a \<open>]\<close> behind it.
\<close>

definition frequencyPlaceholder :: string where
  "frequencyPlaceholder = ''[Assignment: organization-defined frequency]''"

fun closedBefore :: "string \<Rightarrow> bool" where
  "closedBefore [] = True"
| "closedBefore (c # cs) =
     ((if startsWithCI (c # cs) ''[assignment:''
       then CHR '']'' \<in> set (drop (length ''[assignment:'') (c # cs)) else True)
      \<and> closedBefore cs)"


section \<open>The cross-reference resolver (extract-annex-3a.mjs, extract-annex-3a-html.mjs)\<close>

text \<open>
  The PDF extractor looks for \<open>related controls\s*:\s*([^\.]+(?:\.|$))\<close> without case.
  One attempt at the head of \<open>s\<close> gives the group: behind the label, optional white
  space and the colon, the white space is skipped and the group runs to the next full stop
  (included) or to the end of the text. When nothing but a full stop or the end follows
  the white space, the group is the last white-space character (and the full stop), and
  when there is no white space either the attempt fails.
\<close>

definition relatedAtPdf :: "string \<Rightarrow> string option" where
  "relatedAtPdf s =
     (if startsWithCI s ''related controls'' then
        (case dropWhile isSpace (drop (length ''related controls'') s) of
           c # r \<Rightarrow>
             if c = CHR '':'' then
               (let w = takeWhile isSpace r; r' = dropWhile isSpace r
                in case r' of
                     x # xs \<Rightarrow>
                       if x \<noteq> CHR ''.'' then
                         Some (takeWhile (\<lambda>y. y \<noteq> CHR ''.'') r'
                               @ (if dropWhile (\<lambda>y. y \<noteq> CHR ''.'') r' = [] then [] else ''.''))
                       else if w \<noteq> [] then Some ([last w] @ ''.'')
                       else None
                   | [] \<Rightarrow> if w \<noteq> [] then Some [last w] else None)
             else None
         | [] \<Rightarrow> None)
      else None)"

text \<open>\<open>text.match(relatedControlsRegex)\<close>: the first position where an attempt succeeds.\<close>

fun searchRelatedPdf :: "string \<Rightarrow> string option" where
  "searchRelatedPdf [] = None"
| "searchRelatedPdf (c # cs) =
     (case relatedAtPdf (c # cs) of Some g \<Rightarrow> Some g | None \<Rightarrow> searchRelatedPdf cs)"

text \<open>
  \<open>extractRelatedControls\<close> of the PDF extractor: the ids in the group, found by
  \<open>\b([A-Z]{2})\s*-\s*(\d{1,3})\b\<close>, each written letters, hyphen, digits, each once.
\<close>

definition extractRelatedControlsPdf :: "string \<Rightarrow> string list" where
  "extractRelatedControlsPdf text =
     (if text = [] then []
      else case searchRelatedPdf text of
             None \<Rightarrow> []
           | Some g \<Rightarrow> arrayFromSet (map (\<lambda>(l, d). l @ ''-'' @ d) (scanControlIds True False g)))"

text \<open>
  The HTML extractor looks for \<open>Related controls:\s*(.+?)\.\<close> without case. The group
  \<open>(.+?)\<close> is the shortest run of at least one character, none of them a line
  terminator, that a full stop follows.
\<close>

definition lazyUntilStop :: "string \<Rightarrow> string option" where
  "lazyUntilStop t =
     (case t of
        [] \<Rightarrow> None
      | c # cs \<Rightarrow>
          if isLineTerminator c then None
          else (case dropWhile (\<lambda>x. x \<noteq> CHR ''.'' \<and> \<not> isLineTerminator x) cs of
                  x # _ \<Rightarrow>
                    if x = CHR ''.''
                    then Some (c # takeWhile (\<lambda>x. x \<noteq> CHR ''.'' \<and> \<not> isLineTerminator x) cs)
                    else None
                | [] \<Rightarrow> None))"

text \<open>
  One attempt at the head of \<open>s\<close>: the white space behind the label is skipped and the
  group starts there; when that fails and a full stop follows the white space directly,
  the group is the last white-space character.
\<close>

definition relatedAtHtml :: "string \<Rightarrow> string option" where
  "relatedAtHtml s =
     (if startsWithCI s ''related controls:'' then
        (let r = drop (length ''related controls:'') s;
             w = takeWhile isSpace r;
             r' = dropWhile isSpace r
         in case lazyUntilStop r' of
              Some g \<Rightarrow> Some g
            | None \<Rightarrow>
                if w \<noteq> [] \<and> \<not> isLineTerminator (last w) \<and> startsWith r' ''.''
                then Some [last w] else None)
      else None)"

fun searchRelatedHtml :: "string \<Rightarrow> string option" where
  "searchRelatedHtml [] = None"
| "searchRelatedHtml (c # cs) =
     (case relatedAtHtml (c # cs) of Some g \<Rightarrow> Some g | None \<Rightarrow> searchRelatedHtml cs)"

text \<open>
  \<open>extractRelatedControls\<close> of the HTML extractor, with the id pattern
  \<open>\b([A-Z]{2})-(\d{1,3})\b\<close>.
\<close>

definition extractRelatedControlsHtml :: "string \<Rightarrow> string list" where
  "extractRelatedControlsHtml text =
     (case searchRelatedHtml text of
        None \<Rightarrow> []
      | Some g \<Rightarrow> arrayFromSet (map (\<lambda>(l, d). l @ ''-'' @ d) (scanControlIds False False g)))"

text \<open>
  A label as the PDF extractor reads it: the words \<open>related controls\<close> in any case,
  optional white space and a colon, somewhere in the text.
\<close>

definition relatedLabelAt :: "string \<Rightarrow> bool" where
  "relatedLabelAt s =
     (startsWithCI s ''related controls''
      \<and> startsWith (dropWhile isSpace (drop (length ''related controls'') s)) '':'')"

fun hasRelatedLabel :: "string \<Rightarrow> bool" where
  "hasRelatedLabel [] = False"
| "hasRelatedLabel (c # cs) = (relatedLabelAt (c # cs) \<or> hasRelatedLabel cs)"


section \<open>The PDF extractor (scripts/extract-annex-3a.mjs)\<close>

text \<open>
  The extractor is modelled from the list of lines on: \<open>allLines\<close>, the lines that
  \<open>groupLines\<close> builds from the text items of every page.
\<close>

subsection \<open>Patterns\<close>

text \<open>
  The tail \<open>\s*(.+)$\<close> (with \<open>minWs = 0\<close>) or \<open>\s+(.+)$\<close> (with \<open>minWs = 1\<close>) of a
  pattern, tried on \<open>r\<close>: the group is what follows the white space, which must reach
  the end of the text without a line terminator; when nothing follows the white space, the
  group is its last character, if the white space can spare it.
\<close>

definition lineRest :: "nat \<Rightarrow> string \<Rightarrow> string option" where
  "lineRest minWs r =
     (let w = takeWhile isSpace r; r' = dropWhile isSpace r
      in if r' \<noteq> [] then
           (if minWs \<le> length w \<and> \<not> list_ex isLineTerminator r' then Some r' else None)
         else if minWs < length w \<and> \<not> isLineTerminator (last w) then Some [last w]
         else None)"

text \<open>
  \<open>controlHeadingRegex\<close>: \<open>^([A-Z]{2})\s*-\s*(\d{1,3})\s+(.+)$\<close> in the PDF extractor
  (\<open>ws\<close>), \<open>^([A-Z]{2})-(\d{1,3})\s+(.+)$\<close> in the HTML extractor. The result is the
  three groups.
\<close>

definition controlHeading :: "bool \<Rightarrow> string \<Rightarrow> (string \<times> string \<times> string) option" where
  "controlHeading ws line =
     (case line of
        a # b # t \<Rightarrow>
          if isUpperAZ a \<and> isUpperAZ b then
            (case (if ws then dropWhile isSpace t else t) of
               d # t2 \<Rightarrow>
                 if d = CHR ''-'' then
                   (let t3 = (if ws then dropWhile isSpace t2 else t2);
                        ds = takeWhile isDigit t3
                    in if 1 \<le> length ds \<and> length ds \<le> 3 then
                         (case lineRest 1 (dropWhile isDigit t3) of
                            Some g \<Rightarrow> Some ([a, b], ds, g)
                          | None \<Rightarrow> None)
                       else None)
                 else None
             | [] \<Rightarrow> None)
          else None
      | _ \<Rightarrow> None)"

text \<open>
  \<open>isTocLine\<close>: the line has two full stops in a row (\<open>tocDots\<close>) and ends with a
  white-space character and one to three digits (\<open>tocPage\<close>).
\<close>

definition isTocLine :: "string \<Rightarrow> bool" where
  "isTocLine line =
     (includesStr line ''..''
      \<and> (let r = rev line; ds = takeWhile isDigit r
         in 1 \<le> length ds \<and> length ds \<le> 3
            \<and> (case dropWhile isDigit r of c # _ \<Rightarrow> isSpace c | [] \<Rightarrow> False)))"

definition hasUnbalancedOpenParen :: "string \<Rightarrow> bool" where
  "hasUnbalancedOpenParen t = (count_list t (CHR '')'') < count_list t (CHR ''(''))"

definition isLikelyHeadingContinuation :: "string \<Rightarrow> bool" where
  "isLikelyHeadingContinuation line =
     (if line = [] then False
      else if CHR '':'' \<in> set line then False
      else if controlHeading True line \<noteq> None then False
      else list_all (\<lambda>c. isUpperAZ c \<or> isDigit c \<or> isSpace c \<or> c \<in> set ''/-()|'') line)"

subsection \<open>Splitting the lines into controls\<close>

record RawControl = ControlNamed +
  lines :: "string list"

record splitState =
  controls :: "RawControl list"
  current :: "RawControl option"
  started :: bool

definition START_MARKER :: string where
  "START_MARKER = ''3. Security Control Definitions''"

definition splitStep :: "splitState \<Rightarrow> string \<Rightarrow> splitState" where
  "splitStep st line =
     (if \<not> started st then
        (if includesStr line START_MARKER then st\<lparr>started := True\<rparr> else st)
      else if isTocLine line then st
      else if (case current st of
                 Some cur \<Rightarrow> lines cur = [] \<and> hasUnbalancedOpenParen (control_name cur)
                             \<and> isLikelyHeadingContinuation line
               | None \<Rightarrow> False)
      then st\<lparr>current := map_option
              (\<lambda>cur. cur\<lparr>control_name := normalizeSpaces (control_name cur @ '' '' @ line)\<rparr>)
              (current st)\<rparr>
      else (case controlHeading True line of
              Some (letters, digits, name) \<Rightarrow>
                st\<lparr>controls := controls st @ (case current st of Some cur \<Rightarrow> [cur] | None \<Rightarrow> []),
                   current := Some \<lparr>control_id = letters @ ''-'' @ digits,
                                     control_name = trim name, lines = []\<rparr>\<rparr>
            | None \<Rightarrow>
                st\<lparr>current := map_option (\<lambda>cur. cur\<lparr>lines := lines cur @ [line]\<rparr>) (current st)\<rparr>))"

definition splitControls :: "string list \<Rightarrow> RawControl list" where
  "splitControls allLines =
     (let st = foldl splitStep \<lparr>controls = [], current = None, started = False\<rparr> allLines
      in controls st @ (case current st of Some cur \<Rightarrow> [cur] | None \<Rightarrow> []))"

subsection \<open>Sections of a control\<close>

definition normalizeHeader :: "string \<Rightarrow> string" where
  "normalizeHeader t = trim (collapseSpaces False (toLowerCase t))"

definition SECTION_HEADERS :: "string \<Rightarrow> string option" where
  "SECTION_HEADERS = map_of
     [(''control'', ''statement''),
      (''supplemental guidance'', ''supplemental_guidance''),
      (''control enhancements'', ''enhancements''),
      (''related controls'', ''related_controls''),
      (''references'', ''references'')]"

text \<open>
  The pattern of a section line, \<open>^([A-Za-z][A-Za-z ]+):\s*(.*)$\<close>: a letter, at least
  one more letter or space, a colon; the second group is what follows the white space
  behind the colon, up to the end of the line.
\<close>

definition sectionLine :: "string \<Rightarrow> (string \<times> string) option" where
  "sectionLine line =
     (let isLetter = (\<lambda>c. isUpperAZ c \<or> isLowerAZ c);
          h = takeWhile (\<lambda>c. isLetter c \<or> c = CHR '' '') line
      in case dropWhile (\<lambda>c. isLetter c \<or> c = CHR '' '') line of
           c # r \<Rightarrow>
             if c = CHR '':'' \<and> 2 \<le> length h \<and> isLetter (hd h)
                \<and> \<not> list_ex isLineTerminator (dropWhile isSpace r)
             then Some (h, dropWhile isSpace r) else None
         | [] \<Rightarrow> None)"

record sectionState =
  sectioned :: "string \<Rightarrow> string list option"
  currentSection :: "string option"

definition ensureSection :: "(string \<Rightarrow> string list option) \<Rightarrow> string \<Rightarrow> (string \<Rightarrow> string list option)" where
  "ensureSection sec k = (case sec k of None \<Rightarrow> sec(k \<mapsto> []) | Some xs \<Rightarrow> sec)"

definition pushSection :: "(string \<Rightarrow> string list option) \<Rightarrow> string \<Rightarrow> string \<Rightarrow> (string \<Rightarrow> string list option)" where
  "pushSection sec k line = sec(k \<mapsto> (case sec k of None \<Rightarrow> [] | Some xs \<Rightarrow> xs) @ [line])"

definition sectionStep :: "sectionState \<Rightarrow> string \<Rightarrow> sectionState" where
  "sectionStep st line =
     (case (case sectionLine line of
              Some (h, rest) \<Rightarrow>
                (case SECTION_HEADERS (normalizeHeader h) of
                   Some name \<Rightarrow> Some (name, rest)
                 | None \<Rightarrow> None)
            | None \<Rightarrow> None) of
        Some (name, rest) \<Rightarrow>
          (let sec = ensureSection (sectioned st) name
           in \<lparr>sectioned = (if rest \<noteq> [] then pushSection sec name (trim rest) else sec),
               currentSection = Some name\<rparr>)
      | None \<Rightarrow>
          (case currentSection st of
             None \<Rightarrow> \<lparr>sectioned = pushSection (ensureSection (sectioned st) ''statement'') ''statement'' line,
                       currentSection = Some ''statement''\<rparr>
           | Some name \<Rightarrow> st\<lparr>sectioned := pushSection (sectioned st) name line\<rparr>))"

definition parseSections :: "RawControl \<Rightarrow> (string \<Rightarrow> string list option)" where
  "parseSections control =
     sectioned (foldl sectionStep \<lparr>sectioned = Map.empty, currentSection = None\<rparr> (lines control))"

subsection \<open>Statement parts\<close>

record Subpart =
  id' :: string
  text' :: string

record StatementPart = Subpart +
  subparts :: "Subpart list"

text \<open>
  A marker line, \<open>^\(([A-Z])\)\s*(.+)$\<close> or \<open>^\(([a-z])\)\s*(.+)$\<close>: the class of the
  letter is \<open>isLetter\<close>.
\<close>

definition markerLine :: "(char \<Rightarrow> bool) \<Rightarrow> string \<Rightarrow> (string \<times> string) option" where
  "markerLine isLetter line =
     (case line of
        p # x # q # r \<Rightarrow>
          if p = CHR ''('' \<and> isLetter x \<and> q = CHR '')'' then
            (case lineRest 0 r of Some g \<Rightarrow> Some ([x], g) | None \<Rightarrow> None)
          else None
      | _ \<Rightarrow> None)"

record partsState =
  parts :: "StatementPart list"
  currentPart :: "StatementPart option"

definition partsStep :: "partsState \<Rightarrow> string \<Rightarrow> partsState" where
  "partsStep st line =
     (case markerLine isUpperAZ line of
        Some (i, t) \<Rightarrow>
          \<lparr>parts = parts st @ (case currentPart st of Some cur \<Rightarrow> [cur] | None \<Rightarrow> []),
           currentPart = Some \<lparr>id' = i, text' = trim t, subparts = []\<rparr>\<rparr>
      | None \<Rightarrow>
          (case currentPart st of
             None \<Rightarrow> st
           | Some cur \<Rightarrow>
               (case markerLine isLowerAZ line of
                  Some (i, t) \<Rightarrow>
                    st\<lparr>currentPart := Some (cur\<lparr>subparts := subparts cur @ [\<lparr>id' = i, text' = trim t\<rparr>]\<rparr>)\<rparr>
                | None \<Rightarrow>
                    if subparts cur \<noteq> [] then
                      st\<lparr>currentPart := Some (cur\<lparr>subparts := butlast (subparts cur)
                          @ [(last (subparts cur))\<lparr>text' := trim (text' (last (subparts cur)) @ '' '' @ line)\<rparr>]\<rparr>)\<rparr>
                    else
                      st\<lparr>currentPart := Some (cur\<lparr>text' := trim (text' cur @ '' '' @ line)\<rparr>)\<rparr>)))"

definition parseStatementParts :: "string list \<Rightarrow> StatementPart list" where
  "parseStatementParts ls =
     (let st = foldl partsStep \<lparr>parts = [], currentPart = None\<rparr> ls
      in parts st @ (case currentPart st of Some cur \<Rightarrow> [cur] | None \<Rightarrow> []))"

subsection \<open>Enhancements\<close>

record Enhancement =
  enhancement_id :: string
  title :: "string option"
  statement :: string
  supplemental_guidance :: "string option"

text \<open>
  \<open>enhancementHeaderRegex\<close>: \<open>^\((\d+)\)\s+(.+)$\<close> in the PDF extractor (\<open>minWs = 1\<close>),
  \<open>^\((\d+)\)\s*(.+)$\<close> in the HTML extractor (\<open>minWs = 0\<close>).
\<close>

definition enhancementHeader :: "nat \<Rightarrow> string \<Rightarrow> (string \<times> string) option" where
  "enhancementHeader minWs line =
     (case line of
        p # r \<Rightarrow>
          if p = CHR ''('' \<and> takeWhile isDigit r \<noteq> [] then
            (case dropWhile isDigit r of
               q # r2 \<Rightarrow>
                 if q = CHR '')'' then
                   (case lineRest minWs r2 of
                      Some g \<Rightarrow> Some (takeWhile isDigit r, g)
                    | None \<Rightarrow> None)
                 else None
             | [] \<Rightarrow> None)
          else None
      | [] \<Rightarrow> None)"

text \<open>
  A guidance line, and the text it carries: \<open>line.split(":").slice(1).join(":").trim()\<close>,
  what follows the first colon (nothing when the line has no colon).
\<close>

definition isGuidanceLine :: "string \<Rightarrow> bool" where
  "isGuidanceLine line = startsWith (toLowerCase line) ''enhancement supplemental guidance''"

definition guidanceText :: "string \<Rightarrow> string" where
  "guidanceText line = trim (drop 1 (dropWhile (\<lambda>c. c \<noteq> CHR '':'') line))"

record enhState =
  enhancementsDone :: "Enhancement list"
  currentEnh :: "Enhancement option"

definition enhStep :: "string \<Rightarrow> enhState \<Rightarrow> string \<Rightarrow> enhState" where
  "enhStep controlId st line =
     (case enhancementHeader 1 line of
        Some (n, t) \<Rightarrow>
          \<lparr>enhancementsDone = enhancementsDone st @ (case currentEnh st of Some cur \<Rightarrow> [cur] | None \<Rightarrow> []),
           currentEnh = Some \<lparr>enhancement_id = controlId @ ''('' @ n @ '')'', title = Some (trim t),
                              statement = [], supplemental_guidance = None\<rparr>\<rparr>
      | None \<Rightarrow>
          (case currentEnh st of
             None \<Rightarrow> st
           | Some cur \<Rightarrow>
               if isGuidanceLine line then
                 (if guidanceText line \<noteq> []
                  then st\<lparr>currentEnh := Some (cur\<lparr>supplemental_guidance := Some (guidanceText line)\<rparr>)\<rparr>
                  else st)
               else
                 (case supplemental_guidance cur of
                    Some g \<Rightarrow>
                      st\<lparr>currentEnh := Some (cur\<lparr>supplemental_guidance := Some (trim (g @ '' '' @ line))\<rparr>)\<rparr>
                  | None \<Rightarrow>
                      st\<lparr>currentEnh := Some (cur\<lparr>statement := trim (statement cur @ '' '' @ line)\<rparr>)\<rparr>)))"

definition finishEnhancements :: "enhState \<Rightarrow> Enhancement list" where
  "finishEnhancements st =
     enhancementsDone st @ (case currentEnh st of Some cur \<Rightarrow> [cur] | None \<Rightarrow> [])"

definition parseEnhancements :: "string list \<Rightarrow> string \<Rightarrow> Enhancement list" where
  "parseEnhancements ls controlId =
     finishEnhancements (foldl (enhStep controlId) \<lparr>enhancementsDone = [], currentEnh = None\<rparr> ls)"

definition buildKeywords :: "string \<Rightarrow> Enhancement list \<Rightarrow> string list" where
  "buildKeywords controlName enhs =
     arrayFromSet
       ((if controlName \<noteq> [] then [controlName] else [])
        @ concat (map (\<lambda>e.
            (if enhancement_id e \<noteq> [] then [enhancement_id e] else [])
            @ (case title e of Some t \<Rightarrow> if t \<noteq> [] then [t] else [] | None \<Rightarrow> [])) enhs))"


subsection \<open>Records, index and files\<close>

text \<open>
  The fields \<open>statement\<close> and \<open>supplemental_guidance\<close> of a control record are written
  with a prime, those of an enhancement without.
\<close>

record ControlRecord = ControlHead +
  statement' :: "string option"
  statement_parts :: "StatementPart list option"
  supplemental_guidance' :: "string option"
  enhancements :: "Enhancement list option"
  related_controls :: "string list option"
  references :: "string list option"
  raw_text :: "string list option"
  source_url :: "string option"
  source_type :: "string option"

text \<open>
  What a run does to the file system, in order: it creates a directory or writes a file,
  whose content is a control record, the index or the catalog metadata (of a type left
  open).
\<close>

datatype 'm fileContent = ControlFile ControlRecord | IndexFile "ControlIndexItem list" | MetadataFile 'm

datatype 'm fsOp = Mkdir string | WriteFile string "'m fileContent"

definition outputDir :: string where
  "outputDir = ''data/controls/controls''"

definition indexFile :: string where
  "indexFile = ''data/controls/controls-index.json''"

definition metadataFile :: string where
  "metadataFile = ''data/controls/catalog-metadata.json''"

definition controlFile :: "string \<Rightarrow> string" where
  "controlFile controlId = outputDir @ ''/'' @ controlId @ ''.json''"

text \<open>The record the loop of \<open>extract\<close> builds for a control, and its index entry.\<close>

definition pdfRecord :: "RawControl \<Rightarrow> ControlRecord" where
  "pdfRecord control =
     (let sections = parseSections control;
          supplementalGuidance = map_option (join '' '') (sections ''supplemental_guidance'');
          relatedControls = arrayFromSet
            (extractRelatedControlsPdf (case supplementalGuidance of Some g \<Rightarrow> g | None \<Rightarrow> [])
             @ (case sections ''related_controls'' of
                  Some ls \<Rightarrow> extractRelatedControlsPdf (join '' '' ls)
                | None \<Rightarrow> []));
          enhs = parseEnhancements (case sections ''enhancements'' of Some ls \<Rightarrow> ls | None \<Rightarrow> [])
                   (control_id control);
          statementParts = parseStatementParts (case sections ''statement'' of Some ls \<Rightarrow> ls | None \<Rightarrow> [])
      in \<lparr>control_id = control_id control,
          control_name = control_name control,
          family_id = takeWhile (\<lambda>c. c \<noteq> CHR ''-'') (control_id control),
          statement' = map_option (join '' '') (sections ''statement''),
          statement_parts = (if statementParts \<noteq> [] then Some statementParts else None),
          supplemental_guidance' = supplementalGuidance,
          enhancements = (if enhs \<noteq> [] then Some enhs else None),
          related_controls = (if relatedControls \<noteq> [] then Some relatedControls else None),
          references = sections ''references'',
          raw_text = Some (lines control),
          source_url = None,
          source_type = None\<rparr>)"

definition indexItem :: "ControlRecord \<Rightarrow> ControlIndexItem" where
  "indexItem r =
     \<lparr>control_id = control_id r, control_name = control_name r, family_id = family_id r,
      aliases = Some [],
      keywords' = Some (buildKeywords (control_name r)
                          (case enhancements r of Some es \<Rightarrow> es | None \<Rightarrow> []))\<rparr>"

text \<open>\<open>indexMap.set(k, v)\<close>: a key that is present keeps its place and gets the new value.\<close>

fun mapSet :: "('k \<times> 'v) list \<Rightarrow> 'k \<Rightarrow> 'v \<Rightarrow> ('k \<times> 'v) list" where
  "mapSet [] k v = [(k, v)]"
| "mapSet ((k', v') # m) k v = (if k' = k then (k, v) # m else (k', v') # mapSet m k v)"

record 'm extractState =
  indexMap :: "(string \<times> ControlIndexItem) list"
  ops :: "'m fsOp list"

definition extractStep :: "'m extractState \<Rightarrow> RawControl \<Rightarrow> 'm extractState" where
  "extractStep st control =
     (let r = pdfRecord control
      in \<lparr>indexMap = mapSet (indexMap st) (control_id r) (indexItem r),
          ops = ops st @ [WriteFile (controlFile (control_id control)) (ControlFile r)]\<rparr>)"

text \<open>
  \<open>extract\<close> (here \<open>extract_pdf\<close>), from the lines of the document on: the error it
  throws, or nothing, and the file operations it has made.
\<close>

definition extract_pdf :: "string list \<Rightarrow> (string + unit) \<times> 'm fsOp list" where
  "extract_pdf allLines =
     (let rawControls = splitControls allLines
      in if rawControls = [] then (Inl ''No controls found. Check the parser or PDF version.'', [])
         else
           (let st = foldl extractStep \<lparr>indexMap = [], ops = [Mkdir outputDir]\<rparr> rawControls;
                index = map snd (indexMap st)
            in (Inr (), ops st @ [WriteFile indexFile (IndexFile index)])))"

text \<open>The files on disk after a list of operations: the last content written to a path.\<close>

definition applyOp :: "(string \<Rightarrow> 'm fileContent option) \<Rightarrow> 'm fsOp \<Rightarrow> (string \<Rightarrow> 'm fileContent option)" where
  "applyOp fs op = (case op of Mkdir d \<Rightarrow> fs | WriteFile p c \<Rightarrow> fs(p \<mapsto> c))"

definition filesAfter :: "'m fsOp list \<Rightarrow> (string \<Rightarrow> 'm fileContent option)" where
  "filesAfter operations = foldl applyOp Map.empty operations"


text \<open>
  A line of an enhancement that is neither an enhancement header nor a guidance line.
\<close>

definition plainEnhancementLine :: "string \<Rightarrow> bool" where
  "plainEnhancementLine line = (enhancementHeader 1 line = None \<and> \<not> isGuidanceLine line)"


section \<open>The HTML extractor (scripts/extract-annex-3a-html.mjs)\<close>

text \<open>
  The extractor is modelled from the parsed page on: the nodes of its body. An element
  has a tag name (in lower case), attributes and children.
\<close>

datatype node = TextNode string | Element string "(string \<times> string) list" "node list"

fun nodeText :: "node \<Rightarrow> string" where
  "nodeText (TextNode s) = s"
| "nodeText (Element tag attrs kids) = concat (map nodeText kids)"

fun tagName :: "node \<Rightarrow> string option" where
  "tagName (TextNode s) = None"
| "tagName (Element tag attrs kids) = Some tag"

fun attr :: "node \<Rightarrow> string \<Rightarrow> string option" where
  "attr (TextNode s) name = None"
| "attr (Element tag attrs kids) name = map_of attrs name"

fun childNodes :: "node \<Rightarrow> node list" where
  "childNodes (TextNode s) = []"
| "childNodes (Element tag attrs kids) = kids"

text \<open>\<open>$(el).children(tag)\<close>, and the text of \<open>el\<close> without its children of some tags.\<close>

definition children :: "node \<Rightarrow> string \<Rightarrow> node list" where
  "children el tag = filter (\<lambda>k. tagName k = Some tag) (childNodes el)"

definition textWithout :: "string list \<Rightarrow> node \<Rightarrow> string" where
  "textWithout tags el =
     concat (map nodeText
       (filter (\<lambda>k. case tagName k of Some t \<Rightarrow> t \<notin> set tags | None \<Rightarrow> True) (childNodes el)))"

definition cleanText :: "string \<Rightarrow> string" where
  "cleanText v = trim (collapseSpaces False (map (\<lambda>c. if c = CHR 0xA0 then CHR '' '' else c) v))"

subsection \<open>Numbers\<close>

text \<open>
  Numbers are integers, which is what the code computes for values below 2^53 in
  absolute value. \<open>Number.parseInt(s, 10)\<close> skips white space, reads a sign and the
  digits that follow; without a digit the result is \<open>NaN\<close>, here \<open>None\<close>.
\<close>

definition digitValue :: "char \<Rightarrow> nat" where
  "digitValue c = of_char c - 48"

definition parseInt :: "string \<Rightarrow> int option" where
  "parseInt s =
     (let t = dropWhile isSpace s;
          negative = startsWith t ''-'';
          u = (if startsWith t ''-'' \<or> startsWith t ''+'' then drop 1 t else t);
          ds = takeWhile isDigit u
      in if ds = [] then None
         else (let v = int (foldl (\<lambda>acc c. 10 * acc + digitValue c) 0 ds)
               in Some (if negative then - v else v)))"

text \<open>A number written in a template string.\<close>

function showNat :: "nat \<Rightarrow> string" where
  "showNat n = (if n < 10 then [char_of (48 + n)] else showNat (n div 10) @ [char_of (48 + n mod 10)])"
  by pat_completeness auto
termination
  by (relation "measure id") auto

declare showNat.simps [simp del]

definition showInt :: "int \<Rightarrow> string" where
  "showInt i = (if i < 0 then ''-'' @ showNat (nat (- i)) else showNat (nat i))"

text \<open>
  \<open>numberToAlpha\<close>: the loop runs while \<open>n > 0\<close>, with \<open>out\<close> the letters found so far.
\<close>

function numberToAlphaLoop :: "bool \<Rightarrow> int \<Rightarrow> string \<Rightarrow> string" where
  "numberToAlphaLoop lower n out =
     (if n > 0 then
        (let n1 = n - 1;
             charCode = (if lower then 97 else 65) + n1 mod 26
         in numberToAlphaLoop lower (n1 div 26) (char_of charCode # out))
      else out)"
  by pat_completeness auto
termination
  by (relation "measure (\<lambda>(lower, n, out). nat n)") auto

declare numberToAlphaLoop.simps [simp del]

definition numberToAlpha :: "int \<Rightarrow> bool \<Rightarrow> string" where
  "numberToAlpha v lower = numberToAlphaLoop lower v []"

subsection \<open>Statement lists\<close>

text \<open>
  \<open>partRegex\<close> of this extractor, \<open>^\(([A-Z]{1,2})\)\s*(.+)$\<close>, admits one or two
  capital letters; \<open>subPartRegex\<close> is the one of the PDF extractor.
\<close>

definition partMarker :: "string \<Rightarrow> (string \<times> string) option" where
  "partMarker t =
     (case t of
        p # x # r1 \<Rightarrow>
          if p = CHR ''('' \<and> isUpperAZ x then
            (case r1 of
               q # r \<Rightarrow>
                 if q = CHR '')'' then
                   (case lineRest 0 r of Some g \<Rightarrow> Some ([x], g) | None \<Rightarrow> None)
                 else if isUpperAZ q then
                   (case r of
                      q2 # r2 \<Rightarrow>
                        if q2 = CHR '')'' then
                          (case lineRest 0 r2 of Some g \<Rightarrow> Some ([x, q], g) | None \<Rightarrow> None)
                        else None
                    | [] \<Rightarrow> None)
                 else None
             | [] \<Rightarrow> None)
          else None
      | _ \<Rightarrow> None)"

definition stripPartMarker :: "string \<Rightarrow> Subpart option" where
  "stripPartMarker t =
     (case partMarker t of
        Some (i, g) \<Rightarrow> Some \<lparr>id' = i, text' = trim g\<rparr>
      | None \<Rightarrow>
          (case markerLine isLowerAZ t of
             Some (i, g) \<Rightarrow> Some \<lparr>id' = i, text' = trim g\<rparr>
           | None \<Rightarrow> None))"

text \<open>
  The ordinal of a list item: its \<open>value\<close> attribute when that is a number, its
  position (from 1) otherwise.
\<close>

definition itemOrdinal :: "nat \<Rightarrow> node \<Rightarrow> int" where
  "itemOrdinal index li =
     (case parseInt (case attr li ''value'' of Some v \<Rightarrow> v | None \<Rightarrow> []) of
        Some rawValue \<Rightarrow> rawValue
      | None \<Rightarrow> int index + 1)"

definition parseSubItem :: "nat \<Rightarrow> node \<Rightarrow> Subpart" where
  "parseSubItem subIndex subLi =
     (let derivedSubId = numberToAlpha (itemOrdinal subIndex subLi) True;
          subTextRaw = cleanText (nodeText subLi)
      in case stripPartMarker subTextRaw of
           Some parsedSub \<Rightarrow> \<lparr>id' = id' parsedSub, text' = text' parsedSub\<rparr>
         | None \<Rightarrow> \<lparr>id' = derivedSubId, text' = subTextRaw\<rparr>)"

definition parseItem :: "nat \<Rightarrow> node \<Rightarrow> StatementPart" where
  "parseItem index li =
     (let derivedId = numberToAlpha (itemOrdinal index li) False;
          partTextRaw = cleanText (textWithout [''ol''] li);
          subItems = concat (map (\<lambda>ol. children ol ''li'') (children li ''ol''));
          subs = map (\<lambda>(subIndex, subLi). parseSubItem subIndex subLi) (enumerate 0 subItems)
      in case stripPartMarker partTextRaw of
           Some parsedPart \<Rightarrow> \<lparr>id' = id' parsedPart, text' = text' parsedPart, subparts = subs\<rparr>
         | None \<Rightarrow> \<lparr>id' = derivedId, text' = partTextRaw, subparts = subs\<rparr>)"

definition parseStatementList :: "node \<Rightarrow> StatementPart list" where
  "parseStatementList listElement =
     map (\<lambda>(index, li). parseItem index li) (enumerate 0 (children listElement ''li''))"

subsection \<open>Enhancement lists\<close>

definition isGuidanceParagraph :: "string \<Rightarrow> bool" where
  "isGuidanceParagraph line = startsWithCI line ''enhancement supplemental guidance''"

definition paragraphGuidance :: "string \<Rightarrow> string" where
  "paragraphGuidance line =
     trim (dropWhile (\<lambda>c. c = CHR '':'')
       (dropWhile isSpace (drop (length ''enhancement supplemental guidance'') line)))"

text \<open>The paragraphs of an item, sorted into statement parts and guidance parts.\<close>

definition paragraphStep :: "string list \<times> string list \<Rightarrow> node \<Rightarrow> string list \<times> string list" where
  "paragraphStep acc p =
     (let statementParts = fst acc; guidanceParts = snd acc; line = cleanText (nodeText p)
      in if line = [] then acc
         else if isGuidanceParagraph line then
           (if paragraphGuidance line \<noteq> [] then (statementParts, guidanceParts @ [paragraphGuidance line])
            else acc)
         else if guidanceParts \<noteq> [] then (statementParts, guidanceParts @ [line])
         else (statementParts @ [line], guidanceParts))"

definition parseEnhancementItem :: "string \<Rightarrow> nat \<Rightarrow> node \<Rightarrow> Enhancement" where
  "parseEnhancementItem controlId index li =
     (let number = itemOrdinal index li;
          headerRaw = cleanText (textWithout [''p'', ''ol''] li);
          headerMatch = enhancementHeader 0 headerRaw;
          ttl = (case headerMatch of Some (n, t) \<Rightarrow> trim t | None \<Rightarrow> headerRaw);
          paragraphs = children li ''p'';
          nested = filter (\<lambda>line. line \<noteq> [])
            (map (\<lambda>nestedLi. cleanText (nodeText nestedLi))
              (concat (map (\<lambda>ol. children ol ''li'') (children li ''ol''))));
          sorted = foldl paragraphStep (nested, []) paragraphs;
          statementParts = fst sorted;
          guidanceParts = snd sorted
      in \<lparr>enhancement_id = controlId @ ''(''
            @ (case headerMatch of Some (n, t) \<Rightarrow> n | None \<Rightarrow> showInt number) @ '')'',
          title = (if ttl \<noteq> [] then Some ttl else None),
          statement =
            (if statementParts \<noteq> [] then trim (join '' '' statementParts)
             else if paragraphs = [] \<and> headerRaw \<noteq> [] \<and> CHR ''|'' \<notin> set headerRaw then headerRaw
             else []),
          supplemental_guidance =
            (if guidanceParts \<noteq> [] then Some (trim (join '' '' guidanceParts)) else None)\<rparr>)"

definition parseEnhancementList :: "node \<Rightarrow> string \<Rightarrow> Enhancement list" where
  "parseEnhancementList listElement controlId =
     map (\<lambda>(index, li). parseEnhancementItem controlId index li)
       (enumerate 0 (children listElement ''li''))"


subsection \<open>Controls of a page\<close>

text \<open>
  \<open>$("h4")\<close>: every \<open>h4\<close> element in document order, here with the elements that
  follow it among its siblings (what \<open>next()\<close> walks through).
\<close>

fun headings :: "node list \<Rightarrow> (node \<times> node list) list" where
  "headings [] = []"
| "headings (TextNode s # rest) = headings rest"
| "headings (Element tag attrs kids # rest) =
     (if tag = ''h4'' then [(Element tag attrs kids, filter (\<lambda>n. tagName n \<noteq> None) rest)] else [])
     @ headings kids @ headings rest"

definition isControlHeading :: "node \<Rightarrow> bool" where
  "isControlHeading n = (tagName n = Some ''h4'' \<and> controlHeading False (cleanText (nodeText n)) \<noteq> None)"

text \<open>The paragraph patterns \<open>^Control:\s*$\<close> (and alike) and \<open>^Supplemental Guidance\s*:\<close>.\<close>

definition labelOnly :: "string \<Rightarrow> string \<Rightarrow> bool" where
  "labelOnly label t = (startsWithCI t label \<and> list_all isSpace (drop (length label) t))"

definition isGuidanceHeader :: "string \<Rightarrow> bool" where
  "isGuidanceHeader t =
     (startsWithCI t ''supplemental guidance''
      \<and> startsWith (dropWhile isSpace (drop (length ''supplemental guidance'') t)) '':'')"

definition guidanceHeaderValue :: "string \<Rightarrow> string" where
  "guidanceHeaderValue t = trim (drop 1 (dropWhile isSpace (drop (length ''supplemental guidance'') t)))"

record blockState =
  statementLines :: "string list"
  statementPartsAcc :: "StatementPart list"
  supplementalGuidanceAcc :: "string list"
  referencesAcc :: "string list"
  enhancementsAcc :: "Enhancement list"
  section' :: "string option"

definition blockStep :: "string \<Rightarrow> blockState \<Rightarrow> node \<Rightarrow> blockState" where
  "blockStep controlId st nodeEl =
     (case tagName nodeEl of
        None \<Rightarrow> st
      | Some tag \<Rightarrow>
          if tag = ''p'' then
            (let t = cleanText (nodeText nodeEl)
             in if t = [] then st
                else if labelOnly ''control:'' t then st\<lparr>section' := Some ''statement''\<rparr>
                else if isGuidanceHeader t then
                  st\<lparr>section' := Some ''supplemental_guidance'',
                     supplementalGuidanceAcc := supplementalGuidanceAcc st
                       @ (if guidanceHeaderValue t \<noteq> [] then [guidanceHeaderValue t] else [])\<rparr>
                else if labelOnly ''control enhancements:'' t then st\<lparr>section' := Some ''enhancements''\<rparr>
                else if labelOnly ''references:'' t then st\<lparr>section' := Some ''references''\<rparr>
                else if section' st = Some ''statement'' then st\<lparr>statementLines := statementLines st @ [t]\<rparr>
                else if section' st = Some ''supplemental_guidance''
                  then st\<lparr>supplementalGuidanceAcc := supplementalGuidanceAcc st @ [t]\<rparr>
                else if section' st = Some ''references'' then st\<lparr>referencesAcc := referencesAcc st @ [t]\<rparr>
                else st)
          else if tag = ''ol'' \<and> section' st = Some ''statement'' then
            (let parsedParts = parseStatementList nodeEl
             in st\<lparr>statementPartsAcc := statementPartsAcc st @ parsedParts,
                   statementLines := statementLines st
                     @ concat (map (\<lambda>part.
                         (if text' part \<noteq> [] then [text' part] else [])
                         @ filter (\<lambda>t. t \<noteq> []) (map text' (subparts part))) parsedParts)\<rparr>)
          else if tag = ''ol'' \<and> section' st = Some ''enhancements'' then
            st\<lparr>enhancementsAcc := enhancementsAcc st @ parseEnhancementList nodeEl controlId\<rparr>
          else if tag = ''ul'' \<and> section' st = Some ''references'' then
            st\<lparr>referencesAcc := referencesAcc st
                 @ filter (\<lambda>t. t \<noteq> []) (map (\<lambda>li. cleanText (nodeText li)) (children nodeEl ''li''))\<rparr>
          else st)"

definition SOURCE_URL :: string where
  "SOURCE_URL = ''https://www.cyber.gc.ca/en/guidance/annex-3a-security-control-catalogue-itsg-33''"

text \<open>The record of one heading, if the heading is one of a control.\<close>

definition controlOfHeading :: "node \<times> node list \<Rightarrow> ControlRecord option" where
  "controlOfHeading h =
     (case controlHeading False (cleanText (nodeText (fst h))) of
        None \<Rightarrow> None
      | Some (letters, digits, name) \<Rightarrow>
          (let controlId = letters @ ''-'' @ digits;
               blockNodes = takeWhile (\<lambda>n. \<not> isControlHeading n) (snd h);
               st = foldl (blockStep controlId)
                      \<lparr>statementLines = [], statementPartsAcc = [], supplementalGuidanceAcc = [],
                       referencesAcc = [], enhancementsAcc = [], section' = None\<rparr> blockNodes;
               stmt = trim (join '' '' (statementLines st));
               guidanceText = trim (join '' '' (supplementalGuidanceAcc st));
               relatedControls = extractRelatedControlsHtml guidanceText
           in Some \<lparr>control_id = controlId,
                    control_name = trim name,
                    family_id = letters,
                    statement' = (if stmt \<noteq> [] then Some stmt else None),
                    statement_parts = (if statementPartsAcc st \<noteq> [] then Some (statementPartsAcc st) else None),
                    supplemental_guidance' = (if guidanceText \<noteq> [] then Some guidanceText else None),
                    enhancements = (if enhancementsAcc st \<noteq> [] then Some (enhancementsAcc st) else None),
                    related_controls = (if relatedControls \<noteq> [] then Some relatedControls else None),
                    references = (if referencesAcc st \<noteq> [] then Some (referencesAcc st) else None),
                    raw_text = None,
                    source_url = Some SOURCE_URL,
                    source_type = Some ''html''\<rparr>))"

definition parseControlsFromHtml :: "node list \<Rightarrow> ControlRecord list" where
  "parseControlsFromHtml bodyHtml = concat (map (\<lambda>h. case controlOfHeading h of Some r \<Rightarrow> [r] | None \<Rightarrow> [])
     (headings bodyHtml))"

text \<open>
  \<open>run\<close>, from the fetched page on: \<open>catalogMetadata\<close> is what \<open>extractCatalogMetadata\<close>
  makes of the page. The result is the error thrown, or nothing, and the file operations
  made.
\<close>

definition run :: "'m \<Rightarrow> node list \<Rightarrow> (string + unit) \<times> 'm fsOp list" where
  "run catalogMetadata bodyHtml =
     (let controls = parseControlsFromHtml bodyHtml
      in if controls = [] then (Inl ''No controls parsed from HTML source'', [])
         else
           (let index = map indexItem controls
            in (Inr (),
                [Mkdir outputDir]
                @ map (\<lambda>control. WriteFile (controlFile (control_id control)) (ControlFile control)) controls
                @ [WriteFile indexFile (IndexFile index),
                   WriteFile metadataFile (MetadataFile catalogMetadata)])))"

text \<open>
  What the operations of a run leave: the ids of the control files written, the index
  written last, and the positions of the writes.
\<close>

fun controlIdsWritten :: "'m fsOp list \<Rightarrow> string list" where
  "controlIdsWritten [] = []"
| "controlIdsWritten (WriteFile p (ControlFile r) # rest) = control_id r # controlIdsWritten rest"
| "controlIdsWritten (x # rest) = controlIdsWritten rest"

fun indexWritten :: "'m fsOp list \<Rightarrow> ControlIndexItem list option" where
  "indexWritten [] = None"
| "indexWritten (WriteFile p (IndexFile idx) # rest) =
     (case indexWritten rest of Some later \<Rightarrow> Some later | None \<Rightarrow> Some idx)"
| "indexWritten (x # rest) = indexWritten rest"

fun isControlWrite :: "'m fsOp \<Rightarrow> bool" where
  "isControlWrite (WriteFile p (ControlFile r)) = True"
| "isControlWrite x = False"

fun isIndexWrite :: "'m fsOp \<Rightarrow> bool" where
  "isIndexWrite (WriteFile p (IndexFile idx)) = True"
| "isIndexWrite x = False"

text \<open>No control file is written after an index file.\<close>

fun controlsBeforeIndex :: "'m fsOp list \<Rightarrow> bool" where
  "controlsBeforeIndex [] = True"
| "controlsBeforeIndex (x # rest) =
     ((if isIndexWrite x then \<not> list_ex isControlWrite rest else True) \<and> controlsBeforeIndex rest)"


subsection \<open>The ordinal-to-letter mapping of the specification\<close>

text \<open>
  The mapping 1 to A, 2 to B, ..., 26 to Z, 27 to AA counts the words over the alphabet,
  shorter words first: the word of \<open>n\<close> is reached from the empty word by \<open>n\<close> steps to
  the next word. \<open>nextLetters\<close> is that step on a word written last letter first, \<open>a\<close>
  being the first letter of the alphabet.
\<close>

fun nextLetters :: "char \<Rightarrow> string \<Rightarrow> string" where
  "nextLetters a [] = [a]"
| "nextLetters a (c # cs) =
     (if (of_char c :: nat) = of_char a + 25 then a # nextLetters a cs
      else char_of ((of_char c :: nat) + 1) # cs)"

definition ordinalLetters :: "nat \<Rightarrow> bool \<Rightarrow> string" where
  "ordinalLetters n lower = rev ((nextLetters (if lower then CHR ''a'' else CHR ''A'') ^^ n) [])"

text \<open>
  The items under the nested lists of an item, and an item (a sub-item) without a
  \<open>value\<close> attribute and without a marker.
\<close>

definition subListItems :: "node \<Rightarrow> node list" where
  "subListItems li = concat (map (\<lambda>ol. children ol ''li'') (children li ''ol''))"

definition unmarkedItem :: "node \<Rightarrow> bool" where
  "unmarkedItem li = (attr li ''value'' = None \<and> stripPartMarker (cleanText (textWithout [''ol''] li)) = None)"

definition unmarkedSubItem :: "node \<Rightarrow> bool" where
  "unmarkedSubItem subLi = (attr subLi ''value'' = None \<and> stripPartMarker (cleanText (nodeText subLi)) = None)"

text \<open>The letters of \<open>numberToAlpha\<close>, last letter first.\<close>

function lettersRev :: "nat \<Rightarrow> nat \<Rightarrow> string" where
  "lettersRev base n = (if n = 0 then [] else char_of (base + (n - 1) mod 26) # lettersRev base ((n - 1) div 26))"
  by pat_completeness auto
termination
  by (relation "measure snd") auto

declare lettersRev.simps [simp del]

text \<open>A statement list of three items, the second with two sub-items.\<close>

definition demoList :: node where
  "demoList = Element ''ol'' []
     [Element ''li'' [] [TextNode ''Identifies account types;''],
      Element ''li'' [] [TextNode ''Establishes conditions for membership;'',
        Element ''ol'' [] [Element ''li'' [] [TextNode ''for groups; and''],
                           Element ''li'' [] [TextNode ''for roles.'']]],
      Element ''li'' [] [TextNode ''Reviews accounts.'']]"


section \<open>Vocabulary of the claims about the catalog\<close>

text \<open>The canonical form of a control id, \<open>^[A-Z]{2}-\d{1,3}$\<close>.\<close>

definition canonicalControlId :: "string \<Rightarrow> bool" where
  "canonicalControlId s =
     (case s of
        a # b # h # ds \<Rightarrow>
          isUpperAZ a \<and> isUpperAZ b \<and> h = CHR ''-'' \<and> 1 \<le> length ds \<and> length ds \<le> 3
          \<and> list_all isDigit ds
      | _ \<Rightarrow> False)"

text \<open>
  A control of the PDF whose guidance names AC-3 before AC-2, and a page with two
  headings for AC-2.
\<close>

definition unsortedControl :: RawControl where
  "unsortedControl =
     \<lparr>control_id = ''AC-1'', control_name = ''ACCESS CONTROL POLICY AND PROCEDURES'',
      lines = [''Supplemental Guidance: Related controls: AC-3, AC-2.'']\<rparr>"

definition repeatedHeadingBody :: "node list" where
  "repeatedHeadingBody =
     [Element ''h4'' [] [TextNode ''AC-2 ACCOUNT MANAGEMENT''],
      Element ''p'' [] [TextNode ''Control:''],
      Element ''h4'' [] [TextNode ''AC-2 ACCOUNT REVIEW''],
      Element ''p'' [] [TextNode ''Control:'']]"

text \<open>The name of the control record that a path holds.\<close>

definition recordNameAt :: "(string \<Rightarrow> 'm fileContent option) \<Rightarrow> string \<Rightarrow> string option" where
  "recordNameAt fs p = (case fs p of Some (ControlFile r) \<Rightarrow> Some (control_name r) | _ \<Rightarrow> None)"


text \<open>
  What holds of the state of the loop of \<open>extract\<close> after every control: the index map has
  one entry per id, each entry carries its key, the name and the family of the record its
  file holds, the ids of the map are the ids written, and no index file is written yet.
\<close>

definition extractInv :: "'m extractState \<Rightarrow> bool" where
  "extractInv st =
     (distinct (map fst (indexMap st))
      \<and> (\<forall>(k, item) \<in> set (indexMap st).
            control_id item = k
            \<and> (\<exists>r. filesAfter (ops st) (controlFile k) = Some (ControlFile r)
                  \<and> control_name r = control_name item \<and> family_id r = family_id item))
      \<and> fst ` set (indexMap st) = set (controlIdsWritten (ops st))
      \<and> list_all (\<lambda>x. \<not> isIndexWrite x) (ops st))"

text \<open>The write of one control record, as the loop of \<open>run\<close> makes it.\<close>

definition writeControl :: "ControlRecord \<Rightarrow> 'm fsOp" where
  "writeControl control = WriteFile (controlFile (control_id control)) (ControlFile control)"


section \<open>The first two steps of the selection\<close>




section \<open>Properties of the read API\<close>

lemma getJson_never_value: "getJson b k \<noteq> Val v"
  by (simp add: getJson_def split: option.split)

lemma falsy_getJson: "falsy (getJson b k)"
  by (simp add: getJson_def split: option.split)

lemma handleControl_always_404:
  "handleControl e cid = \<lparr>status = 404, body = ErrorBody ''control not found''\<rparr>"
  by (simp add: handleControl_def falsy_getJson jsonResponse_def)

text \<open>
  C1. A request for a published control is answered with 404. Whatever text \<open>obj\<close> is
  stored (a valid JSON record included), under the key the extractor publishes and under
  the key the handler reads, \<open>GET /api/controls/AC-2.json\<close> and \<open>GET /api/controls/AC-2\<close>
  both return status 404 with the body "control not found", where the claim promises 200
  with the stored record.
\<close>

theorem handleControl_published_is_404:
  "(fetchGet \<lparr>DATA = [''controls/AC-2.json'' \<mapsto> obj, ''controls/AC-2.json.json'' \<mapsto> obj],
      DATA_PREFIX = None\<rparr> ''/api/controls/AC-2.json'' :: string response)
     = \<lparr>status = 404, body = ErrorBody ''control not found''\<rparr>
   \<and> (fetchGet \<lparr>DATA = [''controls/AC-2.json'' \<mapsto> obj, ''controls/AC-2.json.json'' \<mapsto> obj],
      DATA_PREFIX = None\<rparr> ''/api/controls/AC-2'' :: string response)
     = \<lparr>status = 404, body = ErrorBody ''control not found''\<rparr>"
  by (simp add: fetchGet_def handleControl_always_404 trim_def trimStart_def trimEnd_def isSpace_def)

section \<open>Properties of the control selection\<close>






lemma sliceTo_take: "\<exists>n. sliceTo xs limit = take n xs"
  by (auto simp: sliceTo_def)








text \<open>
  C2. The caller's \<open>control_ids\<close> never reach the selection. For the body
  \<open>{"question": "What does IA-2 require?", "control_ids": ["AC-2"]}\<close> and an index with
  AC-2 and IA-2: the handler answers 500 "controls-index not found" although the index is
  stored, because \<open>getJson\<close> never returns it; and the selection it would make reads the
  property \<open>controlIds\<close>, which this body does not have, so it selects IA-2 from the
  question text, where \<open>selectControlIds\<close> given the caller's list selects AC-2.
\<close>

theorem handleChat_ignores_control_ids:
  "handleChat ai \<lparr>DATA = [''controls-index.json'' \<mapsto> obj], DATA_PREFIX = None\<rparr> (Some demoPayload)
     = Inr \<lparr>status = 500, body = JsonBody (ChatError ''controls-index not found'')\<rparr>
   \<and> chatControlIds demoPayload ''What does IA-2 require?'' demoIndex = [''IA-2'']
   \<and> selectControlIds ''What does IA-2 require?'' (Some [''AC-2'']) demoIndex 6 = [''AC-2'']"
proof -
  have "handleChat ai \<lparr>DATA = [''controls-index.json'' \<mapsto> obj], DATA_PREFIX = None\<rparr> (Some demoPayload)
     = Inr \<lparr>status = 500, body = JsonBody (ChatError ''controls-index not found'')\<rparr>"
    by (simp add: handleChat_def demoPayload_def getJson_def jsonResponse_def trim_def trimStart_def
        trimEnd_def isSpace_def joinKey_def)
  moreover have "chatControlIds demoPayload ''What does IA-2 require?'' demoIndex = [''IA-2'']"
    by code_simp
  moreover have "selectControlIds ''What does IA-2 require?'' (Some [''AC-2'']) demoIndex 6 = [''AC-2'']"
    by code_simp
  ultimately show ?thesis by simp
qed







section \<open>Properties of the assignment placeholder scan\<close>

lemma set_uniqInto: "set (uniqInto seen xs) = set seen \<union> set xs"
  by (induction xs arbitrary: seen) auto

lemma set_arrayFromSet: "set (arrayFromSet xs) = set xs"
  by (simp add: arrayFromSet_def set_uniqInto)

lemma startsWith_take: "startsWith s p = (take (length p) s = p)"
  by (induction s p rule: startsWith.induct) auto

lemma startsWithCI_map: "startsWithCI s p = (map toLowerChar (take (length p) s) = p)"
  by (auto simp: startsWithCI_def startsWith_take toLowerCase_def take_map [symmetric])

lemma closedBefore_drop: "closedBefore s \<Longrightarrow> closedBefore (drop n s)"
proof (induction s arbitrary: n)
  case Nil
  then show ?case by simp
next
  case (Cons c cs)
  show ?case
  proof (cases n)
    case 0
    with Cons.prems show ?thesis by (simp del: closedBefore.simps)
  next
    case (Suc k)
    from Cons.prems have "closedBefore cs" by simp
    with Cons.IH Suc show ?thesis by simp
  qed
qed

lemma assignmentAt_placeholder:
  "assignmentAt (frequencyPlaceholder @ post) = Some (frequencyPlaceholder, post)"
  by (simp add: assignmentAt_def frequencyPlaceholder_def startsWithCI_def toLowerCase_def
      toLowerChar_def isUpperAZ_def)

lemma label_not_across:
  assumes "startsWithCI (pre @ frequencyPlaceholder @ post) ''[assignment:''" and "pre \<noteq> []"
  shows "length ''[assignment:'' \<le> length pre"
proof (rule ccontr)
  let ?L = "''[assignment:''"
  let ?s = "pre @ frequencyPlaceholder @ post"
  assume "\<not> length ?L \<le> length pre"
  then have k: "length pre < length ?L" by simp
  from assms(2) have k0: "0 < length pre" by simp
  from assms(1) have eq: "map toLowerChar (take (length ?L) ?s) = ?L"
    by (simp only: startsWithCI_map)
  have "?s ! length pre = CHR ''[''"
    by (simp add: nth_append frequencyPlaceholder_def)
  moreover have "length pre < length (take (length ?L) ?s)"
    using k by (simp add: frequencyPlaceholder_def)
  ultimately have "map toLowerChar (take (length ?L) ?s) ! length pre = toLowerChar (CHR ''['')"
    using k by (simp del: take_append)
  with eq have "?L ! length pre = CHR ''[''"
    by (simp add: toLowerChar_def isUpperAZ_def)
  moreover have "?L ! length pre \<in> set (tl ?L)"
  proof (cases "length pre")
    case 0
    with k0 show ?thesis by simp
  next
    case (Suc j)
    with k have "j < length (tl ?L)" by simp
    then have "tl ?L ! j \<in> set (tl ?L)" by (rule nth_mem)
    with Suc show ?thesis by simp
  qed
  ultimately show False by simp
qed

lemma scan_finds_placeholder:
  "closedBefore pre \<Longrightarrow> frequencyPlaceholder \<in> set (scanAssignments (pre @ frequencyPlaceholder @ post))"
proof (induction pre rule: length_induct)
  case (1 pre)
  let ?P = frequencyPlaceholder
  let ?L = "''[assignment:''"
  let ?notClose = "\<lambda>c. c \<noteq> CHR '']''"
  show ?case
  proof (cases pre)
    case Nil
    have "?P @ post = CHR ''['' # tl (?P @ post)"
      by (simp add: frequencyPlaceholder_def)
    then have "scanAssignments (?P @ post) = ?P # scanAssignments post"
      using assignmentAt_placeholder [of post]
      by (metis (no_types, lifting) scanAssignments.simps(2) option.simps(5) case_prod_conv)
    with Nil show ?thesis by simp
  next
    case (Cons c cs)
    from "1.prems" Cons have closed_cs: "closedBefore cs" by simp
    have ih_cs: "?P \<in> set (scanAssignments (cs @ ?P @ post))"
      using "1.IH" closed_cs Cons by simp
    show ?thesis
    proof (cases "assignmentAt (pre @ ?P @ post)")
      case None
      with Cons ih_cs show ?thesis by simp
    next
      case (Some res)
      obtain m rest where res: "res = (m, rest)" by (cases res)
      from Some have lab: "startsWithCI (pre @ ?P @ post) ?L"
        by (simp add: assignmentAt_def split: if_splits)
      with Cons have len: "length ?L \<le> length pre"
        by (intro label_not_across [of pre post]) simp_all
      then have lab_pre: "startsWithCI pre ?L"
        using lab by (simp add: startsWithCI_map)
      with "1.prems" Cons have close: "CHR '']'' \<in> set (drop (length ?L) pre)"
        by simp
      have after: "drop (length ?L) (pre @ ?P @ post) = drop (length ?L) pre @ ?P @ post"
        using len by simp
      have dw: "dropWhile ?notClose (drop (length ?L) pre @ ?P @ post)
          = dropWhile ?notClose (drop (length ?L) pre) @ ?P @ post"
        by (rule dropWhile_append1 [OF close]) simp
      from close have ne: "dropWhile ?notClose (drop (length ?L) pre) \<noteq> []"
        by (auto simp: dropWhile_eq_Nil_conv)
      define pre' where "pre' = tl (dropWhile ?notClose (drop (length ?L) pre))"
      from Some res have "rest = tl (dropWhile ?notClose (drop (length ?L) (pre @ ?P @ post)))"
        by (auto simp: assignmentAt_def Let_def split: if_splits)
      then have rest: "rest = pre' @ ?P @ post"
        by (simp only: after dw pre'_def tl_append2 [OF ne])
      have "pre' = drop (Suc (length (takeWhile ?notClose (drop (length ?L) pre)) + length ?L)) pre"
        unfolding pre'_def by (simp add: dropWhile_eq_drop drop_Suc tl_drop)
      then have closed': "closedBefore pre'"
        using "1.prems" closedBefore_drop by simp
      have "length (tl xs) < length xs" if "xs \<noteq> []" for xs :: string
        using that by (cases xs) simp_all
      from this [OF ne] have "length pre' < length (dropWhile ?notClose (drop (length ?L) pre))"
        by (simp only: pre'_def)
      also have "\<dots> \<le> length (drop (length ?L) pre)"
        by (rule length_dropWhile_le)
      also have "\<dots> \<le> length pre"
        by simp
      finally have "length pre' < length pre" .
      with "1.IH" closed' have "?P \<in> set (scanAssignments (pre' @ ?P @ post))"
        by blast
      with Some res rest Cons show ?thesis
        by simp
    qed
  qed
qed

lemma placeholder_normal: "normalizeAssignment frequencyPlaceholder = frequencyPlaceholder"
  by (simp add: normalizeAssignment_def normalizeSpaces_def frequencyPlaceholder_def trim_def
      trimStart_def trimEnd_def isSpace_def)

lemma placeholder_topic: "parseAssignmentTopic frequencyPlaceholder = ''frequency''"
  by code_simp

lemma frequency_category: "categorizeTopic ''frequency'' = ''cadence''"
  by code_simp

text \<open>
  C9 (as amended). Every string of a scope that contains the placeholder
  \<open>[Assignment: organization-defined frequency]\<close>, with no unclosed \<open>[Assignment:\<close>
  before it, gives a row for that placeholder with the topic "frequency" and the
  category "cadence".
\<close>

theorem assignment_scan_frequency:
  assumes "closedBefore pre" and "pre @ frequencyPlaceholder @ post \<in> set (walk scopeData)"
  shows "\<exists>row \<in> set (scopeRows scopeData).
           assignment_placeholder row = frequencyPlaceholder
           \<and> assignment_topic row = ''frequency'' \<and> category row = ''cadence''"
proof -
  let ?found = "concat (map (\<lambda>text. map normalizeAssignment (scanAssignments text)) (walk scopeData))"
  from scan_finds_placeholder [OF assms(1), of post]
  have "normalizeAssignment frequencyPlaceholder
          \<in> set (map normalizeAssignment (scanAssignments (pre @ frequencyPlaceholder @ post)))"
    by simp
  with assms(2) have "frequencyPlaceholder \<in> set ?found"
    by (auto simp: placeholder_normal)
  then have "(frequencyPlaceholder, count_list ?found frequencyPlaceholder)
      \<in> set (collectAssignmentsInScope scopeData)"
    by (simp add: collectAssignmentsInScope_def Let_def set_arrayFromSet)
  then have "\<lparr>assignment_placeholder = frequencyPlaceholder,
      assignment_topic = parseAssignmentTopic frequencyPlaceholder,
      category = categorizeTopic (parseAssignmentTopic frequencyPlaceholder),
      occurrence_count = count_list ?found frequencyPlaceholder\<rparr> \<in> set (scopeRows scopeData)"
    unfolding scopeRows_def by (force simp: Let_def)
  then show ?thesis
    by (auto simp: placeholder_topic frequency_category intro!: bexI)
qed

theorem assignment_scan_frequency_witness:
  "closedBefore ''The plan is reviewed '' \<and>
   (\<exists>row \<in> set (scopeRows (DObject [(''statement'',
        DString ''The plan is reviewed [Assignment: organization-defined frequency].'')])).
      assignment_placeholder row = frequencyPlaceholder
      \<and> assignment_topic row = ''frequency'' \<and> category row = ''cadence'')"
proof -
  have c: "closedBefore ''The plan is reviewed ''"
    by (simp add: startsWithCI_def toLowerCase_def toLowerChar_def isUpperAZ_def)
  have w: "''The plan is reviewed '' @ frequencyPlaceholder @ ''.''
      \<in> set (walk (DObject [(''statement'',
        DString ''The plan is reviewed [Assignment: organization-defined frequency].'')]))"
    by (simp add: frequencyPlaceholder_def)
  from assignment_scan_frequency [OF c w] c show ?thesis by simp
qed

text \<open>
  C9 as stated fails: the string \<open>[Assignment: x [Assignment: organization-defined
  frequency]\<close> contains the placeholder, but the pattern matches the whole string, and
  the only topic derived is \<open>x [Assignment: organization-defined frequency\<close>.
\<close>

theorem assignment_scan_nested_counterexample:
  "includesStr ''[Assignment: x [Assignment: organization-defined frequency]'' frequencyPlaceholder
   \<and> map assignment_topic (scopeRows (DString ''[Assignment: x [Assignment: organization-defined frequency]''))
       = [''x [Assignment: organization-defined frequency'']"
  by code_simp

section \<open>Properties of the cross-reference resolver\<close>

lemma relatedAtPdf_label: "relatedAtPdf s = Some g \<Longrightarrow> relatedLabelAt s"
  by (auto simp: relatedAtPdf_def relatedLabelAt_def split: if_splits list.splits)

lemma searchRelatedPdf_no_label: "\<not> hasRelatedLabel str \<Longrightarrow> searchRelatedPdf str = None"
proof (induction str)
  case Nil
  then show ?case by simp
next
  case (Cons c cs)
  then have "relatedAtPdf (c # cs) = None"
    using relatedAtPdf_label [of "c # cs"] by (cases "relatedAtPdf (c # cs)") auto
  with Cons show ?case by simp
qed

lemma startsWithCI_lower: "startsWithCI s p = startsWith (toLowerCase s) p"
  by (simp add: startsWithCI_map startsWith_take toLowerCase_def take_map)

lemma searchRelatedHtml_no_label:
  "\<not> includesStr (toLowerCase str) ''related controls:'' \<Longrightarrow> searchRelatedHtml str = None"
proof (induction str)
  case Nil
  then show ?case by simp
next
  case (Cons c cs)
  from Cons.prems have no: "\<not> startsWithCI (c # cs) ''related controls:''"
    and rest: "\<not> includesStr (toLowerCase cs) ''related controls:''"
    by (simp_all add: startsWithCI_lower toLowerCase_def)
  from no have "relatedAtHtml (c # cs) = None"
    by (simp add: relatedAtHtml_def)
  with Cons.IH rest show ?case by simp
qed

text \<open>
  C7 (as amended). Both resolvers return exactly AC-2, AC-3 and AC-6 for the text
  \<open>Related controls: AC-2, AC-3, AC-2, AC-6.\<close>; the resolver of the PDF extractor
  returns the empty list for every text without the words "related controls", optional
  white space and a colon (in any case), and the resolver of the HTML extractor for every
  text that does not contain "related controls:" (in any case).
\<close>

theorem related_controls_resolver:
  "extractRelatedControlsPdf ''Related controls: AC-2, AC-3, AC-2, AC-6.'' = [''AC-2'', ''AC-3'', ''AC-6'']
   \<and> extractRelatedControlsHtml ''Related controls: AC-2, AC-3, AC-2, AC-6.'' = [''AC-2'', ''AC-3'', ''AC-6'']
   \<and> (\<not> hasRelatedLabel str \<longrightarrow> extractRelatedControlsPdf str = [])
   \<and> (\<not> includesStr (toLowerCase str) ''related controls:'' \<longrightarrow> extractRelatedControlsHtml str = [])"
proof -
  have "extractRelatedControlsPdf ''Related controls: AC-2, AC-3, AC-2, AC-6.'' = [''AC-2'', ''AC-3'', ''AC-6'']"
    by code_simp
  moreover have "extractRelatedControlsHtml ''Related controls: AC-2, AC-3, AC-2, AC-6.'' = [''AC-2'', ''AC-3'', ''AC-6'']"
    by code_simp
  moreover have "\<not> hasRelatedLabel str \<longrightarrow> extractRelatedControlsPdf str = []"
    by (simp add: extractRelatedControlsPdf_def searchRelatedPdf_no_label)
  moreover have "\<not> includesStr (toLowerCase str) ''related controls:'' \<longrightarrow> extractRelatedControlsHtml str = []"
    by (simp add: extractRelatedControlsHtml_def searchRelatedHtml_no_label)
  ultimately show ?thesis by blast
qed

theorem related_controls_resolver_witness:
  "\<not> hasRelatedLabel ''See AC-2 and AC-3.''
   \<and> \<not> includesStr (toLowerCase ''See AC-2 and AC-3.'') ''related controls:''
   \<and> extractRelatedControlsPdf ''See AC-2 and AC-3.'' = []
   \<and> extractRelatedControlsHtml ''See AC-2 and AC-3.'' = []"
proof -
  have a: "\<not> hasRelatedLabel ''See AC-2 and AC-3.''"
    by code_simp
  have b: "\<not> includesStr (toLowerCase ''See AC-2 and AC-3.'') ''related controls:''"
    by code_simp
  from related_controls_resolver [of "''See AC-2 and AC-3.''"] a b show ?thesis
    by blast
qed

text \<open>
  C7 as stated fails for the PDF extractor: \<open>Related controls : AC-2.\<close> does not
  contain "Related controls:" in any case, and the resolver returns AC-2.
\<close>

theorem related_controls_spaced_label_counterexample:
  "\<not> includesStr (toLowerCase ''Related controls : AC-2.'') ''related controls:''
   \<and> extractRelatedControlsPdf ''Related controls : AC-2.'' = [''AC-2'']"
  by code_simp

section \<open>Properties of the enhancement parser\<close>

lemma guidance_line_no_header: "isGuidanceLine g \<Longrightarrow> enhancementHeader n g = None"
proof (cases g)
  case Nil
  then show ?thesis by (simp add: enhancementHeader_def)
next
  case (Cons c cs)
  assume "isGuidanceLine g"
  with Cons have "toLowerChar c = CHR ''e''"
    by (simp add: isGuidanceLine_def toLowerCase_def)
  then have "c \<noteq> CHR ''(''"
    by (auto simp: toLowerChar_def isUpperAZ_def)
  with Cons show ?thesis by (simp add: enhancementHeader_def)
qed

lemma enhStep_guidance_set:
  assumes "isGuidanceLine g" and "guidanceText g \<noteq> []"
  shows "enhStep cid \<lparr>enhancementsDone = ds, currentEnh = Some cur\<rparr> g
       = \<lparr>enhancementsDone = ds, currentEnh = Some (cur\<lparr>supplemental_guidance := Some (guidanceText g)\<rparr>)\<rparr>"
  using assms by (simp add: enhStep_def guidance_line_no_header)

lemma enhStep_guidance_empty:
  assumes "isGuidanceLine g" and "guidanceText g = []"
  shows "enhStep cid \<lparr>enhancementsDone = ds, currentEnh = Some cur\<rparr> g
       = \<lparr>enhancementsDone = ds, currentEnh = Some cur\<rparr>"
  using assms by (simp add: enhStep_def guidance_line_no_header)

lemma enhStep_plain_in_guidance:
  assumes "plainEnhancementLine l" and "supplemental_guidance cur = Some t"
  shows "enhStep cid \<lparr>enhancementsDone = ds, currentEnh = Some cur\<rparr> l
       = \<lparr>enhancementsDone = ds,
          currentEnh = Some (cur\<lparr>supplemental_guidance := Some (trim (t @ '' '' @ l))\<rparr>)\<rparr>"
  using assms by (simp add: enhStep_def plainEnhancementLine_def)

lemma plain_lines_in_guidance:
  assumes "list_all plainEnhancementLine ls" and "supplemental_guidance cur = Some t"
  shows "foldl (enhStep cid) \<lparr>enhancementsDone = ds, currentEnh = Some cur\<rparr> ls
       = \<lparr>enhancementsDone = ds,
          currentEnh = Some (cur\<lparr>supplemental_guidance :=
            Some (foldl (\<lambda>acc l. trim (acc @ '' '' @ l)) t ls)\<rparr>)\<rparr>"
  using assms
proof (induction ls arbitrary: cur t)
  case Nil
  then show ?case by simp
next
  case (Cons l ls)
  from Cons.prems have l: "plainEnhancementLine l" and ls: "list_all plainEnhancementLine ls"
    by simp_all
  let ?cur' = "cur\<lparr>supplemental_guidance := Some (trim (t @ '' '' @ l))\<rparr>"
  have "supplemental_guidance ?cur' = Some (trim (t @ '' '' @ l))"
    by simp
  from Cons.IH [OF ls this] show ?case
    by (simp add: enhStep_plain_in_guidance [OF l Cons.prems(2)])
qed

text \<open>
  C6 (as amended). While an enhancement is open, a guidance line that carries text
  behind its first colon sets \<open>supplemental_guidance\<close> to that text, and every following
  line that is neither an enhancement header nor a guidance line is appended to
  \<open>supplemental_guidance\<close>, the statement staying as it is; a guidance line that carries
  no such text changes nothing.
\<close>

theorem enhancement_guidance_mode:
  assumes "isGuidanceLine g" and "list_all plainEnhancementLine ls"
  shows "(guidanceText g \<noteq> [] \<longrightarrow>
            foldl (enhStep cid) \<lparr>enhancementsDone = ds, currentEnh = Some cur\<rparr> (g # ls)
            = \<lparr>enhancementsDone = ds,
               currentEnh = Some (cur\<lparr>supplemental_guidance :=
                 Some (foldl (\<lambda>acc l. trim (acc @ '' '' @ l)) (guidanceText g) ls)\<rparr>)\<rparr>)
       \<and> (guidanceText g = [] \<longrightarrow>
            enhStep cid \<lparr>enhancementsDone = ds, currentEnh = Some cur\<rparr> g
            = \<lparr>enhancementsDone = ds, currentEnh = Some cur\<rparr>)"
proof (intro conjI impI)
  assume t: "guidanceText g \<noteq> []"
  let ?cur' = "cur\<lparr>supplemental_guidance := Some (guidanceText g)\<rparr>"
  have "supplemental_guidance ?cur' = Some (guidanceText g)"
    by simp
  from plain_lines_in_guidance [OF assms(2) this, of cid ds]
  show "foldl (enhStep cid) \<lparr>enhancementsDone = ds, currentEnh = Some cur\<rparr> (g # ls)
            = \<lparr>enhancementsDone = ds,
               currentEnh = Some (cur\<lparr>supplemental_guidance :=
                 Some (foldl (\<lambda>acc l. trim (acc @ '' '' @ l)) (guidanceText g) ls)\<rparr>)\<rparr>"
    by (simp add: enhStep_guidance_set [OF assms(1) t])
next
  assume "guidanceText g = []"
  with assms(1) show "enhStep cid \<lparr>enhancementsDone = ds, currentEnh = Some cur\<rparr> g
            = \<lparr>enhancementsDone = ds, currentEnh = Some cur\<rparr>"
    by (rule enhStep_guidance_empty)
qed

theorem enhancement_guidance_mode_witness:
  "isGuidanceLine ''Enhancement Supplemental Guidance: Accounts are reviewed''
   \<and> list_all plainEnhancementLine [''at least annually.'']
   \<and> foldl (enhStep ''AC-2'')
         \<lparr>enhancementsDone = [],
          currentEnh = Some \<lparr>enhancement_id = ''AC-2(1)'', title = Some ''AUTOMATED MANAGEMENT'',
            statement = ''The organization automates.'', supplemental_guidance = None\<rparr>\<rparr>
         [''Enhancement Supplemental Guidance: Accounts are reviewed'', ''at least annually.'']
     = \<lparr>enhancementsDone = [],
        currentEnh = Some \<lparr>enhancement_id = ''AC-2(1)'', title = Some ''AUTOMATED MANAGEMENT'',
          statement = ''The organization automates.'',
          supplemental_guidance = Some ''Accounts are reviewed at least annually.''\<rparr>\<rparr>"
proof -
  let ?g = "''Enhancement Supplemental Guidance: Accounts are reviewed''"
  let ?cur = "\<lparr>enhancement_id = ''AC-2(1)'', title = Some ''AUTOMATED MANAGEMENT'',
         statement = ''The organization automates.'', supplemental_guidance = None\<rparr>"
  have g: "isGuidanceLine ?g"
    by code_simp
  have p: "list_all plainEnhancementLine [''at least annually.'']"
    by code_simp
  have t: "guidanceText ?g = ''Accounts are reviewed''"
    by code_simp
  have fin: "foldl (\<lambda>acc l. trim (acc @ '' '' @ l)) ''Accounts are reviewed'' [''at least annually.'']
      = ''Accounts are reviewed at least annually.''"
    by code_simp
  from enhancement_guidance_mode [OF g p, of "''AC-2''" "[]" ?cur]
  have "foldl (enhStep ''AC-2'') \<lparr>enhancementsDone = [], currentEnh = Some ?cur\<rparr>
          [?g, ''at least annually.'']
        = \<lparr>enhancementsDone = [],
           currentEnh = Some (?cur\<lparr>supplemental_guidance :=
             Some ''Accounts are reviewed at least annually.''\<rparr>)\<rparr>"
    unfolding t fin by simp
  with g p show ?thesis by simp
qed

text \<open>
  C6 as stated fails: after the line \<open>Enhancement Supplemental Guidance:\<close> the next
  line is appended to the statement, and the enhancement has no guidance.
\<close>

theorem enhancement_guidance_header_only_counterexample:
  "isGuidanceLine ''Enhancement Supplemental Guidance:''
   \<and> parseEnhancements [''(1) AUTOMATED MANAGEMENT'', ''Enhancement Supplemental Guidance:'',
        ''Accounts are reviewed annually.''] ''AC-2''
     = [\<lparr>enhancement_id = ''AC-2(1)'', title = Some ''AUTOMATED MANAGEMENT'',
         statement = ''Accounts are reviewed annually.'', supplemental_guidance = None\<rparr>]"
  by code_simp

section \<open>Properties of the HTML statement parser\<close>

lemma numberToAlphaLoop_lettersRev:
  "numberToAlphaLoop lower (int n) out = rev (lettersRev (if lower then 97 else 65) n) @ out"
proof (induction n arbitrary: out rule: less_induct)
  case (less n)
  show ?case
  proof (cases "n = 0")
    case True
    then show ?thesis by (simp add: lettersRev.simps numberToAlphaLoop.simps)
  next
    case False
    then have lt: "(n - 1) div 26 < n" by simp
    have d: "(int n - 1) div 26 = int ((n - 1) div 26)"
      using False by (simp add: zdiv_int of_nat_diff)
    have m: "(int n - 1) mod 26 = int ((n - 1) mod 26)"
      using False by (simp add: zmod_int of_nat_diff)
    have c: "(char_of (int b + int k) :: char) = char_of (b + k)" for b k :: nat
    proof -
      have "int b + int k = int (b + k)" by simp
      then show ?thesis by (simp only: char_of_nat)
    qed
    show ?thesis
      using False less.IH [OF lt]
      by (subst numberToAlphaLoop.simps, subst lettersRev.simps)
         (simp add: Let_def d m c [of 97, simplified] c [of 65, simplified])
  qed
qed

lemma of_char_letter:
  assumes "k < 26" and "base = 65 \<or> base = 97"
  shows "(of_char (char_of (base + k :: nat) :: char) :: nat) = base + k"
  using assms by (auto simp: of_char_of)

lemma lettersRev_Suc:
  assumes "base = (of_char a :: nat)" and "base = 65 \<or> base = 97"
  shows "lettersRev base (Suc n) = nextLetters a (lettersRev base n)"
proof (induction n rule: less_induct)
  case (less n)
  show ?case
  proof (cases "n = 0")
    case True
    then show ?thesis
      using assms by (simp add: lettersRev.simps)
  next
    case False
    then have lt: "(n - 1) div 26 < n" by simp
    have unfold_n: "lettersRev base n = char_of (base + (n - 1) mod 26) # lettersRev base ((n - 1) div 26)"
      using False by (subst lettersRev.simps) simp
    have unfold_S: "lettersRev base (Suc n) = char_of (base + n mod 26) # lettersRev base (n div 26)"
      by (subst lettersRev.simps) simp
    have oc: "(of_char (char_of (base + (n - 1) mod 26) :: char) :: nat) = base + (n - 1) mod 26"
      by (rule of_char_letter [OF _ assms(2)]) simp
    from False obtain m where n: "n = Suc m"
      by (cases n) simp_all
    show ?thesis
    proof (cases "m mod 26 = 25")
      case True
      then have "Suc m mod 26 = 0" and "Suc m div 26 = Suc (m div 26)"
        by (simp_all add: mod_Suc div_Suc)
      with less.IH [OF lt] True show ?thesis
        unfolding unfold_S unfold_n using assms(1) oc by (simp add: n)
    next
      case no: False
      then have "Suc m mod 26 = Suc (m mod 26)" and "Suc m div 26 = m div 26"
        by (simp_all add: mod_Suc div_Suc)
      with no show ?thesis
        unfolding unfold_S unfold_n using assms(1) oc by (simp add: n)
    qed
  qed
qed

lemma lettersRev_funpow:
  assumes "base = (of_char a :: nat)" and "base = 65 \<or> base = 97"
  shows "lettersRev base n = (nextLetters a ^^ n) []"
proof (induction n)
  case 0
  show ?case by (simp add: lettersRev.simps)
next
  case (Suc n)
  then show ?case by (simp add: lettersRev_Suc [OF assms])
qed

lemma numberToAlpha_ordinalLetters: "numberToAlpha (int n) lower = ordinalLetters n lower"
proof (cases lower)
  case True
  have "lettersRev 97 n = (nextLetters (CHR ''a'') ^^ n) []"
    by (rule lettersRev_funpow) simp_all
  with True show ?thesis
    by (simp add: numberToAlpha_def ordinalLetters_def numberToAlphaLoop_lettersRev)
next
  case False
  have "lettersRev 65 n = (nextLetters (CHR ''A'') ^^ n) []"
    by (rule lettersRev_funpow) simp_all
  with False show ?thesis
    by (simp add: numberToAlpha_def ordinalLetters_def numberToAlphaLoop_lettersRev)
qed

lemma parseInt_empty: "parseInt [] = None"
  by (simp add: parseInt_def)

lemma itemOrdinal_no_value: "attr li ''value'' = None \<Longrightarrow> itemOrdinal index li = int index + 1"
  by (simp add: itemOrdinal_def parseInt_empty)

lemma parseItem_unmarked:
  "unmarkedItem li \<Longrightarrow> id' (parseItem index li) = ordinalLetters (index + 1) False"
  using numberToAlpha_ordinalLetters [of "index + 1" False]
  by (simp add: parseItem_def unmarkedItem_def itemOrdinal_no_value Let_def add.commute)

lemma parseSubItem_unmarked:
  "unmarkedSubItem subLi \<Longrightarrow> id' (parseSubItem subIndex subLi) = ordinalLetters (subIndex + 1) True"
  using numberToAlpha_ordinalLetters [of "subIndex + 1" True]
  by (simp add: parseSubItem_def unmarkedSubItem_def itemOrdinal_no_value Let_def add.commute)

lemma subparts_parseItem:
  "subparts (parseItem index li) = map (\<lambda>(subIndex, subLi). parseSubItem subIndex subLi) (enumerate 0 (subListItems li))"
  by (simp add: parseItem_def subListItems_def Let_def split: option.split)

text \<open>
  C8. In a statement list, the item at position \<open>i + 1\<close> that has no \<open>value\<close> attribute
  and no marker gets the id that the ordinal-to-letter mapping gives \<open>i + 1\<close>, and a
  sub-item likewise in lower case; \<open>numberToAlpha\<close> is that mapping, which sends 1, 2,
  3, 26 and 27 to A, B, C, Z and AA.
\<close>

theorem derived_part_ids:
  "(i < length (children listElement ''li'') \<and> unmarkedItem (children listElement ''li'' ! i)
      \<longrightarrow> id' (parseStatementList listElement ! i) = ordinalLetters (i + 1) False)
   \<and> (j < length (subListItems li) \<and> unmarkedSubItem (subListItems li ! j)
      \<longrightarrow> id' (subparts (parseItem index li) ! j) = ordinalLetters (j + 1) True)
   \<and> numberToAlpha (int n) lower = ordinalLetters n lower
   \<and> map (\<lambda>k. ordinalLetters k False) [1, 2, 3, 26, 27] = [''A'', ''B'', ''C'', ''Z'', ''AA'']
   \<and> map (\<lambda>k. ordinalLetters k True) [1, 2, 3, 26, 27] = [''a'', ''b'', ''c'', ''z'', ''aa'']"
proof -
  have "id' (parseStatementList listElement ! i) = ordinalLetters (i + 1) False"
    if "i < length (children listElement ''li'')" "unmarkedItem (children listElement ''li'' ! i)"
    using that by (simp add: parseStatementList_def nth_enumerate_eq parseItem_unmarked)
  moreover have "id' (subparts (parseItem index li) ! j) = ordinalLetters (j + 1) True"
    if "j < length (subListItems li)" "unmarkedSubItem (subListItems li ! j)"
    using that by (simp add: subparts_parseItem nth_enumerate_eq parseSubItem_unmarked)
  moreover have "map (\<lambda>k. ordinalLetters k False) [1, 2, 3, 26, 27] = [''A'', ''B'', ''C'', ''Z'', ''AA'']"
    by code_simp
  moreover have "map (\<lambda>k. ordinalLetters k True) [1, 2, 3, 26, 27] = [''a'', ''b'', ''c'', ''z'', ''aa'']"
    by code_simp
  ultimately show ?thesis
    using numberToAlpha_ordinalLetters by blast
qed

theorem derived_part_ids_witness:
  "2 < length (children demoList ''li'') \<and> unmarkedItem (children demoList ''li'' ! 2)
   \<and> id' (parseStatementList demoList ! 2) = ''C''
   \<and> 1 < length (subListItems (children demoList ''li'' ! 1))
   \<and> unmarkedSubItem (subListItems (children demoList ''li'' ! 1) ! 1)
   \<and> id' (subparts (parseItem 1 (children demoList ''li'' ! 1)) ! 1) = ''b''"
proof -
  have a: "2 < length (children demoList ''li'')"
    by code_simp
  have b: "unmarkedItem (children demoList ''li'' ! 2)"
    by code_simp
  have c: "1 < length (subListItems (children demoList ''li'' ! 1))"
    by code_simp
  have d: "unmarkedSubItem (subListItems (children demoList ''li'' ! 1) ! 1)"
    by code_simp
  have e: "ordinalLetters (2 + 1) False = ''C''" "ordinalLetters (1 + 1) True = ''b''"
    by code_simp+
  from derived_part_ids [of 2 demoList 1 "children demoList ''li'' ! 1" 1] a b c d e
  show ?thesis by simp
qed

section \<open>Properties of the extraction runs\<close>

text \<open>
  C4. When the segmentation finds no control, the run of either extractor ends with an
  error and has made no file operation: no directory created, no file written.
\<close>

theorem zero_controls_abort:
  "(splitControls allLines = []
      \<longrightarrow> extract_pdf allLines = (Inl ''No controls found. Check the parser or PDF version.'', []))
   \<and> (parseControlsFromHtml bodyHtml = []
      \<longrightarrow> run catalogMetadata bodyHtml = (Inl ''No controls parsed from HTML source'', []))"
  by (simp add: extract_pdf_def run_def)

theorem zero_controls_abort_witness:
  "splitControls [''Table of contents'', ''1. Introduction''] = []
   \<and> parseControlsFromHtml [Element ''h4'' [] [TextNode ''Introduction'']] = []
   \<and> (extract_pdf [''Table of contents'', ''1. Introduction''] :: (string + unit) \<times> unit fsOp list)
       = (Inl ''No controls found. Check the parser or PDF version.'', [])
   \<and> run () [Element ''h4'' [] [TextNode ''Introduction'']]
       = (Inl ''No controls parsed from HTML source'', [])"
proof -
  have a: "splitControls [''Table of contents'', ''1. Introduction''] = []"
    by code_simp
  have b: "parseControlsFromHtml [Element ''h4'' [] [TextNode ''Introduction'']] = []"
    by code_simp
  from zero_controls_abort [of "[''Table of contents'', ''1. Introduction'']"
      "[Element ''h4'' [] [TextNode ''Introduction'']]" "()"] a b
  show ?thesis by simp
qed

lemma distinct_uniqInto: "distinct seen \<Longrightarrow> distinct (uniqInto seen xs)"
  by (induction xs arbitrary: seen) auto

lemma distinct_arrayFromSet: "distinct (arrayFromSet xs)"
  by (simp add: arrayFromSet_def distinct_uniqInto)

lemma controlIdAt_canonical:
  assumes "controlIdAt ws s = Some ((l, d), rest)"
  shows "canonicalControlId (l @ ''-'' @ d)"
proof -
  from assms obtain a b t where "l = [a, b]" "isUpperAZ a" "isUpperAZ b"
    and "d = takeWhile isDigit t" "1 \<le> length d" "length d \<le> 3"
    unfolding controlIdAt_def
    by (auto split: list.splits if_splits simp: Let_def)
  moreover from \<open>d = takeWhile isDigit t\<close> have "list_all isDigit d"
    by (auto simp: list_all_iff dest: set_takeWhileD)
  ultimately show ?thesis
    by (simp add: canonicalControlId_def)
qed

lemma scanControlIds_canonical:
  "list_all (\<lambda>(l, d). canonicalControlId (l @ ''-'' @ d)) (scanControlIds ws pw s)"
proof (induction ws pw s rule: scanControlIds.induct)
  case (1 ws prevWord)
  show ?case by simp
next
  case (2 ws prevWord c cs)
  show ?case
  proof (cases "if prevWord then None else controlIdAt ws (c # cs)")
    case None
    with 2 show ?thesis by simp
  next
    case (Some res)
    obtain l d rest where res: "res = ((l, d), rest)"
      by (cases res) auto
    from Some res have "controlIdAt ws (c # cs) = Some ((l, d), rest)"
      by (simp split: if_splits)
    then have "canonicalControlId (l @ ''-'' @ d)"
      by (rule controlIdAt_canonical)
    with 2(2) [OF Some [unfolded res] refl] Some res show ?thesis
      by simp
  qed
qed

lemma scanned_ids_canonical:
  "list_all canonicalControlId (map (\<lambda>(l, d). l @ ''-'' @ d) (scanControlIds ws pw s))"
  using scanControlIds_canonical [of ws pw s]
  by (simp add: list_all_iff split_beta)

lemma arrayFromSet_all: "list_all P xs \<Longrightarrow> list_all P (arrayFromSet xs)"
  by (simp add: list_all_iff set_arrayFromSet)

lemma extractRelatedControlsPdf_canonical: "list_all canonicalControlId (extractRelatedControlsPdf s)"
proof (cases "searchRelatedPdf s")
  case None
  then show ?thesis by (simp add: extractRelatedControlsPdf_def)
next
  case (Some g)
  from arrayFromSet_all [OF scanned_ids_canonical [of True False g]] Some show ?thesis
    by (simp add: extractRelatedControlsPdf_def)
qed

lemma extractRelatedControlsHtml_canonical: "list_all canonicalControlId (extractRelatedControlsHtml s)"
proof (cases "searchRelatedHtml s")
  case None
  then show ?thesis by (simp add: extractRelatedControlsHtml_def)
next
  case (Some g)
  from arrayFromSet_all [OF scanned_ids_canonical [of False False g]] Some show ?thesis
    by (simp add: extractRelatedControlsHtml_def)
qed

lemma extractRelatedControlsHtml_distinct: "distinct (extractRelatedControlsHtml s)"
  by (simp add: extractRelatedControlsHtml_def distinct_arrayFromSet split: option.split)

lemma pdfRecord_related:
  assumes "related_controls (pdfRecord control) = Some xs"
  shows "xs \<noteq> [] \<and> distinct xs \<and> list_all canonicalControlId xs"
proof -
  define g where "g = (case map_option (join '' '') (parseSections control ''supplemental_guidance'') of
      Some g \<Rightarrow> g | None \<Rightarrow> [])"
  define more where "more = (case parseSections control ''related_controls'' of
      Some ls \<Rightarrow> extractRelatedControlsPdf (join '' '' ls) | None \<Rightarrow> [])"
  have more: "list_all canonicalControlId more"
    by (simp add: more_def extractRelatedControlsPdf_canonical split: option.split)
  from assms have xs: "xs = arrayFromSet (extractRelatedControlsPdf g @ more)" and ne: "xs \<noteq> []"
    by (simp_all add: pdfRecord_def Let_def g_def more_def split: if_splits)
  have "list_all canonicalControlId (extractRelatedControlsPdf g @ more)"
    using more by (simp add: extractRelatedControlsPdf_canonical)
  then show ?thesis
    using ne by (simp add: xs distinct_arrayFromSet arrayFromSet_all)
qed

lemma htmlRecord_related:
  assumes "r \<in> set (parseControlsFromHtml bodyHtml)" and "related_controls r = Some xs"
  shows "xs \<noteq> [] \<and> distinct xs \<and> list_all canonicalControlId xs"
proof -
  from assms(1) obtain h where "controlOfHeading h = Some r"
    by (auto simp: parseControlsFromHtml_def split: option.splits)
  with assms(2) obtain s where "xs = extractRelatedControlsHtml s" and "xs \<noteq> []"
    by (auto simp: controlOfHeading_def Let_def split: option.splits prod.splits if_splits)
  then show ?thesis
    by (simp add: extractRelatedControlsHtml_distinct extractRelatedControlsHtml_canonical)
qed

text \<open>
  C5 (as amended). The \<open>related_controls\<close> field of an assembled record, of either
  extractor, is a list without duplicates of canonical control ids, and it is not empty.
\<close>

theorem related_controls_field:
  "(related_controls (pdfRecord control) = Some xs
      \<longrightarrow> xs \<noteq> [] \<and> distinct xs \<and> list_all canonicalControlId xs)
   \<and> (r \<in> set (parseControlsFromHtml bodyHtml) \<and> related_controls r = Some ys
      \<longrightarrow> ys \<noteq> [] \<and> distinct ys \<and> list_all canonicalControlId ys)"
  using pdfRecord_related htmlRecord_related by blast

theorem related_controls_field_witness:
  "related_controls (pdfRecord unsortedControl) = Some [''AC-3'', ''AC-2'']
   \<and> distinct [''AC-3'', ''AC-2''] \<and> list_all canonicalControlId [''AC-3'', ''AC-2'']"
proof -
  have a: "related_controls (pdfRecord unsortedControl) = Some [''AC-3'', ''AC-2'']"
    by code_simp
  from related_controls_field [of unsortedControl "[''AC-3'', ''AC-2'']"] a
  show ?thesis by blast
qed

text \<open>
  C5 as stated fails: the field keeps the ids in the order they are found, here AC-3
  before AC-2, which is not the ascending order.
\<close>

theorem related_controls_unsorted_counterexample:
  "related_controls (pdfRecord unsortedControl) = Some [''AC-3'', ''AC-2'']
   \<and> \<not> sorted [''AC-3'', ''AC-2'']"
  by code_simp

text \<open>
  C3. For a page with two headings for AC-2, the run of the HTML extractor ends well;
  the index it writes has two entries for AC-2, named ACCOUNT MANAGEMENT and ACCOUNT
  REVIEW, and the one file for AC-2 holds the record named ACCOUNT REVIEW: the first
  index entry does not have the name of its record.
\<close>

theorem html_index_diverges_on_repeated_id:
  "fst (run () repeatedHeadingBody) = Inr ()
   \<and> map_option (map control_id) (indexWritten (snd (run () repeatedHeadingBody))) = Some [''AC-2'', ''AC-2'']
   \<and> map_option (map control_name) (indexWritten (snd (run () repeatedHeadingBody)))
       = Some [''ACCOUNT MANAGEMENT'', ''ACCOUNT REVIEW'']
   \<and> recordNameAt (filesAfter (snd (run () repeatedHeadingBody))) (controlFile ''AC-2'')
       = Some ''ACCOUNT REVIEW''"
  by code_simp

section \<open>Index and record files of a run\<close>

text \<open>
  The run of the PDF extractor leaves an index whose ids are the ids of the files written,
  each entry with the name and family of the record in its file, and writes the index
  after all control files; the run of the HTML extractor does so when the ids of the
  parsed controls are pairwise distinct.
\<close>

lemma mapSet_keys:
  "map fst (mapSet m k v) = (if k \<in> fst ` set m then map fst m else map fst m @ [k])"
proof (induction m)
  case Nil
  show ?case by simp
next
  case (Cons p m)
  obtain k' v' where p: "p = (k', v')" by (cases p)
  show ?case
  proof (cases "k' = k")
    case True
    with p show ?thesis by simp
  next
    case False
    with Cons p show ?thesis by (cases "k \<in> fst ` set m") simp_all
  qed
qed

lemma in_set_mapSet:
  "distinct (map fst m) \<Longrightarrow> (q \<in> set (mapSet m k v)) = (q = (k, v) \<or> (q \<in> set m \<and> fst q \<noteq> k))"
proof (induction m)
  case Nil
  show ?case by simp
next
  case (Cons p m)
  obtain k' v' where p: "p = (k', v')" by (cases p)
  from Cons.prems have d: "distinct (map fst m)" and notin: "k' \<notin> fst ` set m"
    by (simp_all add: p)
  show ?case
  proof (cases "k' = k")
    case True
    have "q \<in> set m \<Longrightarrow> fst q \<noteq> k"
      using notin True by force
    then show ?thesis
      using True p by fastforce
  next
    case False
    have "(q \<in> set (mapSet (p # m) k v)) = (q = (k', v') \<or> q \<in> set (mapSet m k v))"
      using False p by simp
    also have "\<dots> = (q = (k', v') \<or> q = (k, v) \<or> (q \<in> set m \<and> fst q \<noteq> k))"
      by (simp only: Cons.IH [OF d])
    also have "\<dots> = (q = (k, v) \<or> (q \<in> set (p # m) \<and> fst q \<noteq> k))"
      using False p by fastforce
    finally show ?thesis .
  qed
qed


lemma controlFile_inj: "controlFile a = controlFile b \<longleftrightarrow> a = b"
  by (simp add: controlFile_def)

lemma controlFile_not_index: "controlFile k \<noteq> indexFile"
  by (simp add: controlFile_def indexFile_def outputDir_def)

lemma filesAfter_snoc: "filesAfter (xs @ [x]) = applyOp (filesAfter xs) x"
  by (simp add: filesAfter_def)

lemma controlIdsWritten_snoc:
  "controlIdsWritten (xs @ [x]) = controlIdsWritten xs @ controlIdsWritten [x]"
  by (induction xs rule: controlIdsWritten.induct) simp_all

lemma indexWritten_snoc_index:
  "indexWritten (xs @ [WriteFile p (IndexFile idx)]) = Some idx"
  by (induction xs rule: indexWritten.induct) simp_all

lemma controlsBeforeIndex_snoc_index:
  "list_all (\<lambda>x. \<not> isIndexWrite x) xs \<Longrightarrow> controlsBeforeIndex (xs @ [WriteFile p (IndexFile idx)])"
  by (induction xs) simp_all

lemma pdfRecord_head:
  "control_id (pdfRecord c) = control_id c" "control_name (pdfRecord c) = control_name c"
  by (simp_all add: pdfRecord_def Let_def)

lemma indexItem_head:
  "control_id (indexItem r) = control_id r" "control_name (indexItem r) = control_name r"
  "family_id (indexItem r) = family_id r"
  by (simp_all add: indexItem_def)

lemma extractInv_step:
  assumes "extractInv st"
  shows "extractInv (extractStep st c)"
proof -
  let ?r = "pdfRecord c"
  let ?k = "control_id c"
  let ?w = "WriteFile (controlFile ?k) (ControlFile ?r)"
  have im: "indexMap (extractStep st c) = mapSet (indexMap st) ?k (indexItem ?r)"
    and op: "ops (extractStep st c) = ops st @ [?w]"
    by (simp_all add: extractStep_def Let_def pdfRecord_head)
  from assms have d: "distinct (map fst (indexMap st))"
    by (simp add: extractInv_def)
  have files: "filesAfter (ops st @ [?w]) = (filesAfter (ops st))(controlFile ?k \<mapsto> ControlFile ?r)"
    by (simp add: filesAfter_snoc applyOp_def)
  have 1: "distinct (map fst (mapSet (indexMap st) ?k (indexItem ?r)))"
    using d by (simp add: mapSet_keys)
  have 2: "control_id item = k
            \<and> (\<exists>r. filesAfter (ops st @ [?w]) (controlFile k) = Some (ControlFile r)
                  \<and> control_name r = control_name item \<and> family_id r = family_id item)"
    if "(k, item) \<in> set (mapSet (indexMap st) ?k (indexItem ?r))" for k item
  proof (cases "k = ?k")
    case True
    with that d have "item = indexItem ?r"
      by (simp add: in_set_mapSet)
    with True show ?thesis
      by (simp add: files indexItem_head pdfRecord_head)
  next
    case False
    with that d have "(k, item) \<in> set (indexMap st)"
      by (simp add: in_set_mapSet)
    with assms have "control_id item = k
            \<and> (\<exists>r. filesAfter (ops st) (controlFile k) = Some (ControlFile r)
                  \<and> control_name r = control_name item \<and> family_id r = family_id item)"
      unfolding extractInv_def by blast
    with False show ?thesis
      by (simp add: files controlFile_inj)
  qed
  have 3: "fst ` set (mapSet (indexMap st) ?k (indexItem ?r)) = set (controlIdsWritten (ops st @ [?w]))"
  proof -
    have "fst ` set (mapSet (indexMap st) ?k (indexItem ?r)) = insert ?k (fst ` set (indexMap st))"
    proof -
      have "fst ` set (mapSet (indexMap st) ?k (indexItem ?r))
          = set (map fst (mapSet (indexMap st) ?k (indexItem ?r)))"
        by simp
      also have "\<dots> = insert ?k (fst ` set (indexMap st))"
        unfolding mapSet_keys by auto
      finally show ?thesis .
    qed
    also have "\<dots> = insert ?k (set (controlIdsWritten (ops st)))"
      using assms by (simp add: extractInv_def)
    finally show ?thesis
      by (simp add: controlIdsWritten_snoc pdfRecord_head)
  qed
  have 4: "list_all (\<lambda>x. \<not> isIndexWrite x) (ops st @ [?w])"
    using assms by (simp add: extractInv_def)
  from 1 2 3 4 show ?thesis
    unfolding extractInv_def im op by blast
qed

lemma extractInv_foldl: "extractInv st \<Longrightarrow> extractInv (foldl extractStep st cs)"
  by (induction cs arbitrary: st) (simp_all add: extractInv_step)

lemma extractInv_init: "extractInv \<lparr>indexMap = [], ops = [Mkdir d]\<rparr>"
  by (simp add: extractInv_def)

lemma pdf_index_matches_files:
  assumes "extract_pdf allLines = (Inr (), operations)"
  shows "\<exists>index. indexWritten operations = Some index
           \<and> set (map control_id index) = set (controlIdsWritten operations)
           \<and> (\<forall>item \<in> set index.
                \<exists>r. filesAfter operations (controlFile (control_id item)) = Some (ControlFile r)
                   \<and> control_name r = control_name item \<and> family_id r = family_id item)
           \<and> controlsBeforeIndex operations"
proof -
  define st :: "'a extractState"
    where "st = foldl extractStep \<lparr>indexMap = [], ops = [Mkdir outputDir]\<rparr> (splitControls allLines)"
  let ?index = "map snd (indexMap st)"
  let ?w = "WriteFile indexFile (IndexFile ?index)"
  from assms have operations: "operations = ops st @ [?w]"
    by (simp add: extract_pdf_def Let_def st_def split: if_splits)
  have inv: "extractInv st"
    unfolding st_def by (rule extractInv_foldl [OF extractInv_init])
  have key: "control_id item = k" if "(k, item) \<in> set (indexMap st)" for k item
    using inv that unfolding extractInv_def by blast
  have a: "indexWritten operations = Some ?index"
    by (simp add: operations indexWritten_snoc_index)
  have "map control_id ?index = map fst (indexMap st)"
    using key by (auto simp: map_eq_conv)
  then have b: "set (map control_id ?index) = set (controlIdsWritten operations)"
    using inv by (simp add: extractInv_def operations controlIdsWritten_snoc)
  have c: "\<exists>r. filesAfter operations (controlFile (control_id item)) = Some (ControlFile r)
                   \<and> control_name r = control_name item \<and> family_id r = family_id item"
    if "item \<in> set ?index" for item
  proof -
    from that obtain k where "(k, item) \<in> set (indexMap st)"
      by auto
    with inv have "control_id item = k
        \<and> (\<exists>r. filesAfter (ops st) (controlFile k) = Some (ControlFile r)
              \<and> control_name r = control_name item \<and> family_id r = family_id item)"
      unfolding extractInv_def by blast
    then show ?thesis
      by (auto simp: operations filesAfter_snoc applyOp_def controlFile_not_index)
  qed
  have d: "controlsBeforeIndex operations"
    using inv by (simp add: operations extractInv_def controlsBeforeIndex_snoc_index)
  from a b c d show ?thesis by blast
qed


lemma controlFile_not_metadata: "controlFile k \<noteq> metadataFile"
  by (simp add: controlFile_def metadataFile_def outputDir_def)

lemma filesAfter_append: "filesAfter (xs @ ys) = foldl applyOp (filesAfter xs) ys"
  by (simp add: filesAfter_def)

lemma foldl_writes_other:
  "k \<notin> control_id ` set cs \<Longrightarrow> foldl applyOp fs (map writeControl cs) (controlFile k) = fs (controlFile k)"
  by (induction cs arbitrary: fs) (auto simp: applyOp_def writeControl_def controlFile_inj)

lemma foldl_writes_distinct:
  assumes "distinct (map control_id cs)" and "c \<in> set cs"
  shows "foldl applyOp fs (map writeControl cs) (controlFile (control_id c)) = Some (ControlFile c)"
  using assms
proof (induction cs arbitrary: fs)
  case Nil
  then show ?case by simp
next
  case (Cons x cs)
  show ?case
  proof (cases "c = x")
    case True
    with Cons.prems have "control_id c \<notin> control_id ` set cs" by simp
    then have "foldl applyOp (applyOp fs (writeControl x)) (map writeControl cs) (controlFile (control_id c))
        = applyOp fs (writeControl x) (controlFile (control_id c))"
      by (rule foldl_writes_other)
    also have "\<dots> = Some (ControlFile c)"
      using True by (simp add: applyOp_def writeControl_def)
    finally show ?thesis by simp
  next
    case False
    with Cons show ?thesis by simp
  qed
qed

lemma controlIdsWritten_writes:
  "controlIdsWritten (map writeControl cs @ rest) = map control_id cs @ controlIdsWritten rest"
  by (induction cs) (simp_all add: writeControl_def)

lemma indexWritten_writes: "indexWritten (map writeControl cs @ rest) = indexWritten rest"
  by (induction cs) (simp_all add: writeControl_def)

lemma controlsBeforeIndex_writes:
  "controlsBeforeIndex (map writeControl cs @ rest) = controlsBeforeIndex rest"
  by (induction cs) (simp_all add: writeControl_def)

lemma run_operations:
  assumes "run catalogMetadata bodyHtml = (Inr (), operations)"
  shows "operations = Mkdir outputDir # map writeControl (parseControlsFromHtml bodyHtml)
           @ [WriteFile indexFile (IndexFile (map indexItem (parseControlsFromHtml bodyHtml))),
              WriteFile metadataFile (MetadataFile catalogMetadata)]"
  using assms by (auto simp: run_def Let_def writeControl_def split: if_splits)

lemma html_index_matches_files_when_distinct:
  assumes "run catalogMetadata bodyHtml = (Inr (), operations)"
    and "distinct (map control_id (parseControlsFromHtml bodyHtml))"
  shows "\<exists>index. indexWritten operations = Some index
           \<and> set (map control_id index) = set (controlIdsWritten operations)
           \<and> (\<forall>item \<in> set index.
                \<exists>r. filesAfter operations (controlFile (control_id item)) = Some (ControlFile r)
                   \<and> control_name r = control_name item \<and> family_id r = family_id item)
           \<and> controlsBeforeIndex operations"
proof -
  let ?cs = "parseControlsFromHtml bodyHtml"
  let ?index = "map indexItem ?cs"
  note operations = run_operations [OF assms(1)]
  have a: "indexWritten operations = Some ?index"
    by (simp add: operations indexWritten_writes)
  have b: "set (map control_id ?index) = set (controlIdsWritten operations)"
    by (simp add: operations controlIdsWritten_writes indexItem_def comp_def)
  have c: "\<exists>r. filesAfter operations (controlFile (control_id item)) = Some (ControlFile r)
                   \<and> control_name r = control_name item \<and> family_id r = family_id item"
    if "item \<in> set ?index" for item
  proof -
    from that obtain r where r: "r \<in> set ?cs" and item: "item = indexItem r"
      by auto
    have "filesAfter operations (controlFile (control_id r))
        = foldl applyOp (filesAfter [Mkdir outputDir]) (map writeControl ?cs) (controlFile (control_id r))"
      unfolding operations
      by (simp add: filesAfter_def applyOp_def controlFile_not_index controlFile_not_metadata)
    also have "\<dots> = Some (ControlFile r)"
      by (rule foldl_writes_distinct [OF assms(2) r])
    finally show ?thesis
      by (simp add: item indexItem_def)
  qed
  have d: "controlsBeforeIndex operations"
    by (simp add: operations controlsBeforeIndex_writes)
  from a b c d show ?thesis by blast
qed

end
